theory Spec2Isabelle
  imports Main
begin

section \<open>Machine-pool naming for GCP: the lease allocator and its callers\<close>

text \<open>
  A shallow embedding of \<^verbatim>\<open>pkg/controller/remotemachineset/gcpactuator.go\<close>.
  Go strings are byte sequences and are modelled as \<^typ>\<open>string\<close> (lists of 8-bit
  characters). A Go function returning \<^verbatim>\<open>(value, error)\<close> becomes a sum with the
  error on the left; a runtime panic is the error value \<open>Panic\<close>. The record store, the
  cloud client and the process-wide expectation cache are explicit: what they answer is a
  field of the actuator, what was asked of them is logged in the state.
\<close>

subsection \<open>Errors\<close>

datatype error =
    Errorf string
  | ApiError string
  | Wrap error string
  | Panic string

fun Error :: "error \<Rightarrow> string" where
  "Error (Errorf m) = m"
| "Error (ApiError m) = m"
| "Error (Wrap e m) = m @ '': '' @ Error e"
| "Error (Panic m) = m"

text \<open>\<^verbatim>\<open>errors.Wrap(err, msg)\<close> is nil for a nil error.\<close>

definition errors_Wrap :: "error option \<Rightarrow> string \<Rightarrow> error option" where
  "errors_Wrap err msg = (case err of None \<Rightarrow> None | Some e \<Rightarrow> Some (Wrap e msg))"

subsection \<open>Data model\<close>

record OwnerReference =
  or_APIVersion :: string
  or_Kind :: string
  or_Name :: string
  or_UID :: string
  or_Controller :: "bool option"

text \<open>A Go \<^verbatim>\<open>map[string]string\<close> of labels is an association list; reading a
  missing key gives the empty string.\<close>

type_synonym labels = "(string \<times> string) list"

definition label :: "labels \<Rightarrow> string \<Rightarrow> string" where
  "label ls k = (case map_of ls k of None \<Rightarrow> [] | Some v \<Rightarrow> v)"

record MachinePoolNameLease =
  lease_Name :: string
  lease_Namespace :: string
  lease_Labels :: labels
  lease_OwnerReferences :: "OwnerReference list"

datatype ConditionStatus = ConditionTrue | ConditionFalse | ConditionUnknown

datatype MachinePoolConditionType = NoMachinePoolNameLeasesAvailable | OtherCondition string

record MachinePoolCondition =
  cond_Type :: MachinePoolConditionType
  cond_Status :: ConditionStatus
  cond_Reason :: string
  cond_Message :: string

record GCPMachinePoolPlatform =
  gcp_Zones :: "string list"
  gcp_InstanceType :: string

record MachinePool =
  pool_Name :: string
  pool_Namespace :: string
  pool_UID :: string
  pool_Spec_Name :: string
  pool_Spec_Platform_GCP :: "GCPMachinePoolPlatform option"
  pool_Status_Conditions :: "MachinePoolCondition list"

record ClusterMetadata =
  InfraID :: string

record GCPPlatform =
  Region :: string

record ClusterDeployment =
  cd_Name :: string
  cd_Spec_ClusterMetadata :: "ClusterMetadata option"
  cd_Spec_Platform_GCP :: "GCPPlatform option"

record MachineSet =
  ms_Name :: string

record Zone =
  zone_Name :: string

record ZoneList =
  zl_Items :: "Zone list"
  zl_NextPageToken :: string

record Image =
  image_Name :: string

record ImageList =
  il_Items :: "Image list"

subsection \<open>The actuator and the state it acts on\<close>

text \<open>
  \<open>client_List\<close>, \<open>client_Create\<close> and \<open>client_Status_Update\<close> are the answers of the
  record store; \<open>ListComputeZones\<close> (filter, page token) and \<open>ListComputeImages\<close> (filter)
  are the answers of the cloud client.
\<close>

record GCPActuator =
  client_List :: "string \<Rightarrow> labels \<Rightarrow> error + MachinePoolNameLease list"
  client_Create :: "MachinePoolNameLease \<Rightarrow> error option"
  client_Status_Update :: "MachinePool \<Rightarrow> error option"
  ListComputeZones :: "string \<Rightarrow> string \<Rightarrow> error + ZoneList"
  ListComputeImages :: "string \<Rightarrow> error + ImageList"
  projectID :: string
  leasesRequired :: bool

text \<open>
  The state threaded through a call: the expectation cache and the log of the calls made
  to it, the log of creation calls and of status writes issued against the store, and the
  global random source (\<open>rand.Intn n\<close> is the next raw value modulo \<open>n\<close>).
\<close>

datatype expectation_call =
    ExpectCreations_call string nat
  | DeleteExpectations_call string

record world =
  expectations :: "string \<rightharpoonup> nat"
  expectationCalls :: "expectation_call list"
  createCalls :: "MachinePoolNameLease list"
  statusUpdateCalls :: "MachinePool list"
  randoms :: "nat \<Rightarrow> nat"
  drawn :: nat

definition rand_Intn :: "nat \<Rightarrow> world \<Rightarrow> nat \<times> world" where
  "rand_Intn n w = (randoms w (drawn w) mod n, w\<lparr>drawn := Suc (drawn w)\<rparr>)"

subsection \<open>Constants\<close>

definition validLeaseChars :: string where
  "validLeaseChars = ''abcdefghijklnopqrstuvxyz0123456789''"

text \<open>Modelled from the spec: the label keys of package \<^verbatim>\<open>constants\<close> are not among
  the sources. \<open>MachinePoolNameLabel\<close> is the owning-pool label of a lease and
  \<open>ClusterDeploymentNameLabel\<close> its cluster-owning label. The spec does not spell the
  keys; the two strings below stand for them, and only the fixtures read them.\<close>

definition MachinePoolNameLabel :: string where
  "MachinePoolNameLabel = ''hive.openshift.io/machine-pool-name''"

definition ClusterDeploymentNameLabel :: string where
  "ClusterDeploymentNameLabel = ''hive.openshift.io/cluster-deployment-name''"

subsection \<open>Image resolution\<close>

definition image_filter :: "string \<Rightarrow> string" where
  "image_filter infra = ''name eq '' @ [CHR 0x22] @ infra @ ''-.*'' @ [CHR 0x22]"

definition msg_zero_images :: "string \<Rightarrow> string" where
  "msg_zero_images infra =
     ''found 0 results searching for GCP image starting with name: '' @ infra"

definition msg_many_images :: "string \<Rightarrow> string" where
  "msg_many_images infra =
     ''unexpected number of results when looking for GCP image with name starting with '' @ infra"

text \<open>\<open>getImageID\<close> returns the empty string beside every error, so the pair is a sum.\<close>

definition getImageID :: "GCPActuator \<Rightarrow> ClusterDeployment \<Rightarrow> error + string" where
  "getImageID a cd =
     (case cd_Spec_ClusterMetadata cd of
        None \<Rightarrow> Inl (Panic ''nil pointer dereference'')
      | Some md \<Rightarrow>
          (let infra = InfraID md;
               filter = image_filter infra
           in case ListComputeImages a filter of
                Inl err \<Rightarrow> Inl err
              | Inr result \<Rightarrow>
                  (case il_Items result of
                     [] \<Rightarrow> Inl (Errorf (msg_zero_images infra))
                   | [i] \<Rightarrow> Inr (image_Name i)
                   | _ \<Rightarrow> Inl (Errorf (msg_many_images infra)))))"

subsection \<open>Zone resolution\<close>

definition zone_filter :: "string \<Rightarrow> string" where
  "zone_filter region =
     ''(region eq '' @ [CHR 0x27] @ ''.*'' @ region @ ''.*'' @ [CHR 0x27] @ '') (status eq UP)''"

text \<open>
  The loop of \<open>getZones\<close> runs until a page has an empty next-page token, which a cloud
  client need never send: the first argument bounds the number of pages queried, and
  \<open>None\<close> means the loop had not returned within the bound. The Go function returns the
  pair \<^verbatim>\<open>(zones, err)\<close> on every path, and so does the model.
\<close>

fun getZones_loop ::
  "nat \<Rightarrow> GCPActuator \<Rightarrow> string \<Rightarrow> string \<Rightarrow> string list \<Rightarrow> (string list \<times> error option) option"
where
  "getZones_loop 0 a zoneFilter pageToken zones = None"
| "getZones_loop (Suc n) a zoneFilter pageToken zones =
     (case ListComputeZones a zoneFilter pageToken of
        Inl err \<Rightarrow> Some (zones, Some err)
      | Inr zoneList \<Rightarrow>
          (let zones' = zones @ map zone_Name (zl_Items zoneList)
           in if zl_NextPageToken zoneList = []
              then Some (zones', None)
              else getZones_loop n a zoneFilter (zl_NextPageToken zoneList) zones'))"

definition getZones :: "nat \<Rightarrow> GCPActuator \<Rightarrow> string \<Rightarrow> (string list \<times> error option) option" where
  "getZones fuel a region = getZones_loop fuel a (zone_filter region) [] []"

subsection \<open>The lease-requirement policy\<close>

text \<open>\<^verbatim>\<open>strings.Split(s, "-")\<close>: one part more than there are separators.\<close>

fun Split :: "string \<Rightarrow> char \<Rightarrow> string list" where
  "Split [] sep = [[]]"
| "Split (c # cs) sep =
     (if c = sep then [] # Split cs sep
      else (case Split cs sep of [] \<Rightarrow> [[c]] | p # ps \<Rightarrow> (c # p) # ps))"

text \<open>
  The semantic-version library is external. A parsed version is its three numbers and its
  pre-release identifiers; the parser itself is a parameter of \<open>requireLeases\<close>. The range
  \<^verbatim>\<open>">=4.4.7"\<close> holds of the versions that do not precede 4.4.7, and a pre-release
  of 4.4.7 precedes it.
\<close>

record Version =
  Major :: nat
  Minor :: nat
  Patch :: nat
  Pre :: "string list"

definition versionsSupportingFullNames :: "Version \<Rightarrow> bool" where
  "versionsSupportingFullNames v =
     (Major v > 4 \<or> (Major v = 4 \<and> (Minor v > 4 \<or> (Minor v = 4 \<and>
        (Patch v > 7 \<or> (Patch v = 7 \<and> Pre v = []))))))"

text \<open>A Go \<^verbatim>\<open>map[string]bool\<close> read at a missing key gives \<open>false\<close>.\<close>

definition lookup_bool :: "(string \<rightharpoonup> bool) \<Rightarrow> string \<Rightarrow> bool" where
  "lookup_bool m k = (case m k of None \<Rightarrow> False | Some b \<Rightarrow> b)"

fun collectPoolNames :: "MachineSet list \<Rightarrow> (string \<rightharpoonup> bool) \<Rightarrow> (string \<rightharpoonup> bool)" where
  "collectPoolNames [] poolNames = poolNames"
| "collectPoolNames (ms # rest) poolNames =
     (let nameParts = Split (ms_Name ms) CHR ''-''
      in if length nameParts < 3 then collectPoolNames rest poolNames
         else collectPoolNames rest
                (poolNames(nameParts ! (length nameParts - 2) \<mapsto> True)))"

definition requireLeases ::
  "(string \<Rightarrow> Version option) \<Rightarrow> string \<Rightarrow> MachineSet list \<Rightarrow> bool"
where
  "requireLeases ParseTolerant clusterVersion remoteMachineSets =
     (if (case ParseTolerant clusterVersion of
            Some v \<Rightarrow> \<not> versionsSupportingFullNames v
          | None \<Rightarrow> False)
      then True
      else (let poolNames = collectPoolNames remoteMachineSets Map.empty
            in if lookup_bool poolNames ''w'' \<and> \<not> lookup_bool poolNames ''worker''
               then True
               else False))"

text \<open>The middle token of a machine-group name, as the policy reads it: the
  second-to-last dash-separated part of a name with at least three parts.\<close>

definition middleToken :: "string \<Rightarrow> string option" where
  "middleToken name =
     (let parts = Split name CHR ''-''
      in if length parts < 3 then None else Some (parts ! (length parts - 2)))"

subsection \<open>Status conditions\<close>

text \<open>
  Modelled from the spec: \<^verbatim>\<open>SetMachinePoolConditionWithChangeCheck\<close> and the two
  update checks of package \<^verbatim>\<open>controllerutils\<close> are not among the sources. The spec has
  the condition written only if its value, reason or message actually changed, as a pure
  comparison that returns whether a write is needed, and has the exhausted condition
  cleared only if it was previously set. So: a condition that is absent is added when it
  is to be true and left absent otherwise; one that is present is rewritten when its status
  differs or when the given check of old and new reason and message asks for it.
\<close>

definition UpdateConditionIfReasonOrMessageChange ::
  "string \<Rightarrow> string \<Rightarrow> string \<Rightarrow> string \<Rightarrow> bool"
where
  "UpdateConditionIfReasonOrMessageChange oldReason oldMessage newReason newMessage =
     (oldReason \<noteq> newReason \<or> oldMessage \<noteq> newMessage)"

definition UpdateConditionNever :: "string \<Rightarrow> string \<Rightarrow> string \<Rightarrow> string \<Rightarrow> bool" where
  "UpdateConditionNever oldReason oldMessage newReason newMessage = False"

fun FindMachinePoolCondition ::
  "MachinePoolCondition list \<Rightarrow> MachinePoolConditionType \<Rightarrow> MachinePoolCondition option"
where
  "FindMachinePoolCondition [] t = None"
| "FindMachinePoolCondition (c # cs) t =
     (if cond_Type c = t then Some c else FindMachinePoolCondition cs t)"

fun replaceCondition ::
  "MachinePoolCondition list \<Rightarrow> MachinePoolCondition \<Rightarrow> MachinePoolCondition list"
where
  "replaceCondition [] n = []"
| "replaceCondition (c # cs) n =
     (if cond_Type c = cond_Type n then n # cs else c # replaceCondition cs n)"

definition SetMachinePoolConditionWithChangeCheck ::
  "MachinePoolCondition list \<Rightarrow> MachinePoolConditionType \<Rightarrow> ConditionStatus \<Rightarrow> string \<Rightarrow> string
     \<Rightarrow> (string \<Rightarrow> string \<Rightarrow> string \<Rightarrow> string \<Rightarrow> bool)
     \<Rightarrow> MachinePoolCondition list \<times> bool"
where
  "SetMachinePoolConditionWithChangeCheck conditions conditionType status reason message check =
     (let new = \<lparr>cond_Type = conditionType, cond_Status = status,
                 cond_Reason = reason, cond_Message = message\<rparr>
      in case FindMachinePoolCondition conditions conditionType of
           None \<Rightarrow>
             if status = ConditionTrue then (conditions @ [new], True) else (conditions, False)
         | Some existing \<Rightarrow>
             if cond_Status existing \<noteq> status
                \<or> check (cond_Reason existing) (cond_Message existing) reason message
             then (replaceCondition conditions new, True)
             else (conditions, False))"

subsection \<open>The expectation cache\<close>

text \<open>
  Modelled from the spec: the implementation behind \<^verbatim>\<open>ExpectationsInterface\<close> is not
  among the sources. The spec has a map keyed by the pool's identity string:
  \<open>ExpectCreations\<close> records the count for the key, overwriting a prior one, and
  \<open>DeleteExpectations\<close> clears any expectation for the key. Beside the map, every call
  is appended to \<open>expectationCalls\<close>, so that what the actuator asks of the cache can be
  read off whatever the cache does with it.
\<close>

definition ExpectCreations :: "string \<Rightarrow> nat \<Rightarrow> world \<Rightarrow> world" where
  "ExpectCreations key n w =
     w\<lparr>expectations := (expectations w)(key \<mapsto> n),
       expectationCalls := expectationCalls w @ [ExpectCreations_call key n]\<rparr>"

definition DeleteExpectations :: "string \<Rightarrow> world \<Rightarrow> world" where
  "DeleteExpectations key w =
     w\<lparr>expectations := (expectations w)(key := None),
       expectationCalls := expectationCalls w @ [DeleteExpectations_call key]\<rparr>"

text \<open>\<^verbatim>\<open>types.NamespacedName{Namespace, Name}.String()\<close>\<close>

definition NamespacedName_String :: "string \<Rightarrow> string \<Rightarrow> string" where
  "NamespacedName_String namespace name = namespace @ ''/'' @ name"

subsection \<open>The lease allocator\<close>

definition lease_format_error :: "string \<Rightarrow> string \<Rightarrow> error" where
  "lease_format_error name expectedLeaseName =
     Errorf (''lease '' @ name @ '' did not match expected lease name format (''
             @ expectedLeaseName @ ''[CHAR])'')"

text \<open>
  The first loop of \<open>obtainLease\<close>: the first lease labelled with the pool's name decides,
  \<open>None\<close> when there is none. Slicing the last byte off an empty name panics, and so does
  reading the infra id of a cluster without metadata.
\<close>

fun scanLeases ::
  "MachinePool \<Rightarrow> ClusterDeployment \<Rightarrow> MachinePoolNameLease list \<Rightarrow> (error + string \<times> bool) option"
where
  "scanLeases pool cd [] = None"
| "scanLeases pool cd (l # ls) =
     (if label (lease_Labels l) MachinePoolNameLabel = pool_Name pool
      then Some
        (if lease_Name l = [] then Inl (Panic ''slice bounds out of range'')
         else (let leaseChar = [last (lease_Name l)]
               in case cd_Spec_ClusterMetadata cd of
                    None \<Rightarrow> Inl (Panic ''nil pointer dereference'')
                  | Some md \<Rightarrow>
                      (let expectedLeaseName = InfraID md @ ''-'' @ leaseChar
                       in if expectedLeaseName \<noteq> lease_Name l
                          then Inl (lease_format_error (lease_Name l) expectedLeaseName)
                          else Inr (leaseChar, True))))
      else scanLeases pool cd ls)"

text \<open>
  \<open>stringToRuneSet\<close> builds a \<^verbatim>\<open>map[rune]bool\<close> whose values are all true: the model
  keeps its keys, without duplicates. Go ranges over a map in an unspecified order; the
  model keeps the order of the string, and the index into the keys is random anyway.
  \<open>findAvailableLeaseChars\<close> never returns an error of its own: the left of its sum is
  the panic of indexing the last byte of an empty lease name.
\<close>

definition stringToRuneSet :: "string \<Rightarrow> char list" where
  "stringToRuneSet s = remdups s"

fun deleteClaimed ::
  "ClusterDeployment \<Rightarrow> MachinePoolNameLease list \<Rightarrow> char list \<Rightarrow> error + char list"
where
  "deleteClaimed cd [] availChars = Inr availChars"
| "deleteClaimed cd (lease # rest) availChars =
     (if label (lease_Labels lease) ClusterDeploymentNameLabel \<noteq> cd_Name cd
      then deleteClaimed cd rest availChars
      else if lease_Name lease = [] then Inl (Panic ''index out of range'')
      else deleteClaimed cd rest (removeAll (last (lease_Name lease)) availChars))"

definition findAvailableLeaseChars ::
  "ClusterDeployment \<Rightarrow> MachinePoolNameLease list \<Rightarrow> error + char list"
where
  "findAvailableLeaseChars cd leases = deleteClaimed cd leases (stringToRuneSet validLeaseChars)"

text \<open>The block \<^verbatim>\<open>if changed { pool.Status.Conditions = conds; Status().Update(pool) }\<close>,
  which \<open>obtainLease\<close> has twice.\<close>

definition updateIfChanged ::
  "GCPActuator \<Rightarrow> MachinePool \<Rightarrow> MachinePoolCondition list \<times> bool \<Rightarrow> world
     \<Rightarrow> error option \<times> MachinePool \<times> world"
where
  "updateIfChanged a pool r w =
     (case r of (conds, changed) \<Rightarrow>
        if changed
        then (let pool' = pool\<lparr>pool_Status_Conditions := conds\<rparr>
              in (client_Status_Update a pool', pool',
                  w\<lparr>statusUpdateCalls := statusUpdateCalls w @ [pool']\<rparr>))
        else (None, pool, w))"

definition newLease :: "MachinePool \<Rightarrow> ClusterDeployment \<Rightarrow> string \<Rightarrow> MachinePoolNameLease" where
  "newLease pool cd leaseName =
     \<lparr>lease_Name = leaseName,
      lease_Namespace = pool_Namespace pool,
      lease_Labels = [(MachinePoolNameLabel, pool_Name pool),
                      (ClusterDeploymentNameLabel, cd_Name cd)],
      lease_OwnerReferences =
        [\<lparr>or_APIVersion = ''hive.openshift.io/v1'', or_Kind = ''MachinePool'',
          or_Name = pool_Name pool, or_UID = pool_UID pool, or_Controller = Some True\<rparr>]\<rparr>"

text \<open>The end of \<open>obtainLease\<close>, from the selected character on: name the lease, register
  the expectation, issue the creation call.\<close>

definition claimLease ::
  "GCPActuator \<Rightarrow> MachinePool \<Rightarrow> ClusterDeployment \<Rightarrow> char \<Rightarrow> world
     \<Rightarrow> (error + string \<times> bool) \<times> world"
where
  "claimLease a pool cd leaseRune w =
     (case cd_Spec_ClusterMetadata cd of
        None \<Rightarrow> (Inl (Panic ''nil pointer dereference''), w)
      | Some md \<Rightarrow>
          (let leaseName = InfraID md @ ''-'' @ [leaseRune];
               l = newLease pool cd leaseName;
               expectKey = NamespacedName_String (pool_Namespace pool) (pool_Name pool);
               w1 = ExpectCreations expectKey 1 w;
               w2 = w1\<lparr>createCalls := createCalls w1 @ [l]\<rparr>
           in case client_Create a l of
                Some err \<Rightarrow> (Inl err, DeleteExpectations expectKey w2)
              | None \<Rightarrow> (Inr ([leaseRune], False), w2)))"

definition obtainLease ::
  "GCPActuator \<Rightarrow> MachinePool \<Rightarrow> ClusterDeployment \<Rightarrow> MachinePoolNameLease list \<Rightarrow> world
     \<Rightarrow> (error + string \<times> bool) \<times> MachinePool \<times> world"
where
  "obtainLease a pool cd leases w =
     (case scanLeases pool cd leases of
        Some r \<Rightarrow> (r, pool, w)
      | None \<Rightarrow>
          if pool_Spec_Name pool = ''worker''
          then (case claimLease a pool cd CHR ''w'' w of (r, w1) \<Rightarrow> (r, pool, w1))
          else
            (case findAvailableLeaseChars cd leases of
               Inl err \<Rightarrow> (Inl err, pool, w)
             | Inr availLeaseChars \<Rightarrow>
                 if length availLeaseChars = 0
                 then
                   (case updateIfChanged a pool
                           (SetMachinePoolConditionWithChangeCheck
                              (pool_Status_Conditions pool)
                              NoMachinePoolNameLeasesAvailable
                              ConditionTrue
                              ''OutOfMachinePoolNames''
                              ''All machine pool names are in use''
                              UpdateConditionIfReasonOrMessageChange) w of
                      (Some err, pool1, w1) \<Rightarrow> (Inl err, pool1, w1)
                    | (None, pool1, w1) \<Rightarrow> (Inr ([], False), pool1, w1))
                 else
                   (case updateIfChanged a pool
                           (SetMachinePoolConditionWithChangeCheck
                              (pool_Status_Conditions pool)
                              NoMachinePoolNameLeasesAvailable
                              ConditionFalse
                              ''MachinePoolNamesAvailable''
                              ''Machine pool names available''
                              UpdateConditionNever) w of
                      (Some err, pool1, w1) \<Rightarrow> (Inl err, pool1, w1)
                    | (None, pool1, w1) \<Rightarrow>
                        (case rand_Intn (length availLeaseChars) w1 of
                           (i, w2) \<Rightarrow>
                             (case claimLease a pool1 cd (availLeaseChars ! i) w2 of
                                (r, w3) \<Rightarrow> (r, pool1, w3))))))"

subsection \<open>Generating the machine sets\<close>

record InstallConfig =
  ic_Region :: string
  ic_ProjectID :: string

record OSDisk =
  DiskType :: string
  DiskSizeGB :: int

record InstallerGCPMachinePool =
  igcp_Zones :: "string list"
  igcp_InstanceType :: string
  igcp_OSDisk :: OSDisk

record InstallerMachinePool =
  imp_Name :: string
  imp_Replicas :: "int option"
  imp_Platform_GCP :: "InstallerGCPMachinePool option"

text \<open>
  What \<open>GenerateMachineSets\<close> calls and the sources do not hold: three helpers of the
  package and the installer's generator of machine sets, which returns its machine sets
  beside its error. They are parameters.
\<close>

record deps =
  getClusterVersion :: "ClusterDeployment \<Rightarrow> error + string"
  baseMachinePool :: "MachinePool \<Rightarrow> InstallerMachinePool"
  workerUserData :: "string \<Rightarrow> error + string"
  workerRole :: string
  installgcp_MachineSets ::
    "string \<Rightarrow> InstallConfig \<Rightarrow> InstallerMachinePool \<Rightarrow> string \<Rightarrow> string \<Rightarrow> string
       \<Rightarrow> MachineSet list \<times> error option"

text \<open>
  A result is the triple (machine sets, ready, error); the nil slice is the empty list.
  \<open>buildMachineSets\<close> is \<open>GenerateMachineSets\<close> from the point where the pool name is
  settled; \<open>None\<close> is a zone query that had not returned within the bound.
\<close>

type_synonym generated = "MachineSet list \<times> bool \<times> error option"

definition finishMachineSets ::
  "deps \<Rightarrow> ClusterMetadata \<Rightarrow> InstallConfig \<Rightarrow> string \<Rightarrow> string \<Rightarrow> InstallerMachinePool
     \<Rightarrow> generated"
where
  "finishMachineSets d md ic clusterVersion imageID computePool =
     (case workerUserData d clusterVersion of
        Inl err \<Rightarrow>
          ([], False, Some (Errorf (''error determining worker user data secret: '' @ Error err)))
      | Inr workerUserDataSecret \<Rightarrow>
          (case installgcp_MachineSets d (InfraID md) ic computePool imageID
                  (workerRole d) workerUserDataSecret of
             (installerMachineSets, err) \<Rightarrow>
               (installerMachineSets, err = None,
                errors_Wrap err ''failed to generate machinesets'')))"

definition buildMachineSets ::
  "nat \<Rightarrow> deps \<Rightarrow> GCPActuator \<Rightarrow> ClusterDeployment \<Rightarrow> ClusterMetadata \<Rightarrow> GCPPlatform
     \<Rightarrow> MachinePool \<Rightarrow> GCPMachinePoolPlatform \<Rightarrow> string \<Rightarrow> string \<Rightarrow> generated option"
where
  "buildMachineSets fuel d a cd md cdgcp pool poolgcp poolName clusterVersion =
     (let ic = \<lparr>ic_Region = Region cdgcp, ic_ProjectID = projectID a\<rparr>;
          computePool = (baseMachinePool d pool)
            \<lparr>imp_Name := poolName,
             imp_Platform_GCP := Some
               \<lparr>igcp_Zones = gcp_Zones poolgcp,
                igcp_InstanceType = gcp_InstanceType poolgcp,
                igcp_OSDisk = \<lparr>DiskType = ''pd-ssd'', DiskSizeGB = 128\<rparr>\<rparr>\<rparr>
      in case getImageID a cd of
           Inl err \<Rightarrow>
             Some ([], False, Some (Wrap err ''failed to find image ID for the machine sets''))
         | Inr imageID \<Rightarrow>
             if length (gcp_Zones poolgcp) = 0
             then (case getZones fuel a (Region cdgcp) of
                     None \<Rightarrow> None
                   | Some (zones, Some err) \<Rightarrow>
                       Some ([], False,
                             Some (Wrap err ''compute pool not providing list of zones and failed to fetch list of zones''))
                   | Some (zones, None) \<Rightarrow>
                       if length zones = 0
                       then Some ([], False,
                                  Some (Errorf (''zero zones returned for region '' @ Region cdgcp)))
                       else Some (finishMachineSets d md ic clusterVersion imageID
                              (computePool\<lparr>imp_Platform_GCP := Some
                                 \<lparr>igcp_Zones = zones,
                                  igcp_InstanceType = gcp_InstanceType poolgcp,
                                  igcp_OSDisk = \<lparr>DiskType = ''pd-ssd'', DiskSizeGB = 128\<rparr>\<rparr>\<rparr>)))
             else Some (finishMachineSets d md ic clusterVersion imageID computePool))"

definition GenerateMachineSets ::
  "nat \<Rightarrow> deps \<Rightarrow> GCPActuator \<Rightarrow> ClusterDeployment \<Rightarrow> MachinePool \<Rightarrow> world
     \<Rightarrow> (generated \<times> MachinePool \<times> world) option"
where
  "GenerateMachineSets fuel d a cd pool w =
     (case cd_Spec_ClusterMetadata cd of
        None \<Rightarrow>
          Some (([], False, Some (Errorf ''ClusterDeployment does not have cluster metadata'')),
                pool, w)
      | Some md \<Rightarrow>
     (case cd_Spec_Platform_GCP cd of
        None \<Rightarrow> Some (([], False, Some (Errorf ''ClusterDeployment is not for GCP'')), pool, w)
      | Some cdgcp \<Rightarrow>
     (case pool_Spec_Platform_GCP pool of
        None \<Rightarrow> Some (([], False, Some (Errorf ''MachinePool is not for GCP'')), pool, w)
      | Some poolgcp \<Rightarrow>
     (case getClusterVersion d cd of
        Inl err \<Rightarrow>
          Some (([], False, Some (Errorf (''Unable to get cluster version: '' @ Error err))),
                pool, w)
      | Inr clusterVersion \<Rightarrow>
     (case client_List a (pool_Namespace pool) [(ClusterDeploymentNameLabel, cd_Name cd)] of
        Inl err \<Rightarrow> Some (([], False, Some err), pool, w)
      | Inr leases \<Rightarrow>
          (let useLeases =
                 (if leasesRequired a then True
                  else if length leases > 0 then True
                  else False)
           in if useLeases
              then (case obtainLease a pool cd leases w of
                      (Inl err, pool1, w1) \<Rightarrow> Some (([], False, Some err), pool1, w1)
                    | (Inr (leaseChar, proceed), pool1, w1) \<Rightarrow>
                        if \<not> proceed then Some (([], False, None), pool1, w1)
                        else map_option (\<lambda>g. (g, pool1, w1))
                               (buildMachineSets fuel d a cd md cdgcp pool1 poolgcp
                                  leaseChar clusterVersion))
              else map_option (\<lambda>g. (g, pool, w))
                     (buildMachineSets fuel d a cd md cdgcp pool poolgcp
                        (pool_Spec_Name pool) clusterVersion)))))))"

subsection \<open>A concrete cluster, its pools and stub clients\<close>

text \<open>The inputs of the scenarios: cluster \<open>cd\<close> with infra id \<open>abc123\<close>, the pools
  \<open>worker\<close> and \<open>infra\<close>, a store that accepts every write, and a cloud with one image and
  two pages of zones.\<close>

definition cd_abc123 :: ClusterDeployment where
  "cd_abc123 =
     \<lparr>cd_Name = ''cd'',
      cd_Spec_ClusterMetadata = Some \<lparr>InfraID = ''abc123''\<rparr>,
      cd_Spec_Platform_GCP = Some \<lparr>Region = ''us-east1''\<rparr>\<rparr>"

definition pool_named :: "string \<Rightarrow> MachinePool" where
  "pool_named n =
     \<lparr>pool_Name = ''cd-'' @ n,
      pool_Namespace = ''ns'',
      pool_UID = ''uid-'' @ n,
      pool_Spec_Name = n,
      pool_Spec_Platform_GCP = Some \<lparr>gcp_Zones = [], gcp_InstanceType = ''n1-standard-4''\<rparr>,
      pool_Status_Conditions = []\<rparr>"

definition lease_of :: "string \<Rightarrow> string \<Rightarrow> MachinePoolNameLease" where
  "lease_of name poolName =
     \<lparr>lease_Name = name,
      lease_Namespace = ''ns'',
      lease_Labels = [(MachinePoolNameLabel, poolName), (ClusterDeploymentNameLabel, ''cd'')],
      lease_OwnerReferences = []\<rparr>"

definition two_pages :: "string \<Rightarrow> string \<Rightarrow> error + ZoneList" where
  "two_pages zoneFilter pageToken =
     (if zoneFilter \<noteq> zone_filter ''us-east1'' then Inl (ApiError ''invalid filter'')
      else if pageToken = []
      then Inr \<lparr>zl_Items = [\<lparr>zone_Name = ''us-east1-b''\<rparr>, \<lparr>zone_Name = ''us-east1-c''\<rparr>],
                zl_NextPageToken = ''page2''\<rparr>
      else if pageToken = ''page2''
      then Inr \<lparr>zl_Items = [\<lparr>zone_Name = ''us-east1-d''\<rparr>], zl_NextPageToken = []\<rparr>
      else Inl (ApiError ''invalid page token''))"

definition second_page_fails :: "string \<Rightarrow> string \<Rightarrow> error + ZoneList" where
  "second_page_fails zoneFilter pageToken =
     (if pageToken = ''page2'' then Inl (ApiError ''backend error'')
      else two_pages zoneFilter pageToken)"

definition one_image :: "string \<Rightarrow> error + ImageList" where
  "one_image imageFilter =
     (if imageFilter = image_filter ''abc123''
      then Inr \<lparr>il_Items = [\<lparr>image_Name = ''abc123-rhcos-image''\<rparr>]\<rparr>
      else Inr \<lparr>il_Items = []\<rparr>)"

definition stub_actuator :: GCPActuator where
  "stub_actuator =
     \<lparr>client_List = (\<lambda>namespace ls. Inr []),
      client_Create = (\<lambda>l. None),
      client_Status_Update = (\<lambda>p. None),
      ListComputeZones = two_pages,
      ListComputeImages = one_image,
      projectID = ''project'',
      leasesRequired = False\<rparr>"

definition world0 :: world where
  "world0 =
     \<lparr>expectations = Map.empty, expectationCalls = [], createCalls = [],
      statusUpdateCalls = [],
      randoms = (\<lambda>i. 7), drawn = 0\<rparr>"

definition stub_deps :: deps where
  "stub_deps =
     \<lparr>getClusterVersion = (\<lambda>cd. Inr ''4.5.0''),
      baseMachinePool = (\<lambda>pool.
         \<lparr>imp_Name = pool_Spec_Name pool, imp_Replicas = Some 3, imp_Platform_GCP = None\<rparr>),
      workerUserData = (\<lambda>v. Inr ''worker-user-data''),
      workerRole = ''worker'',
      installgcp_MachineSets = (\<lambda>infra ic computePool imageID role userData.
         ([\<lparr>ms_Name = infra @ ''-'' @ imp_Name computePool @ ''-a''\<rparr>], None))\<rparr>"

definition stub_ParseTolerant :: "string \<Rightarrow> Version option" where
  "stub_ParseTolerant s =
     (if s = ''4.5.0'' then Some \<lparr>Major = 4, Minor = 5, Patch = 0, Pre = []\<rparr>
      else if s = ''4.4.6'' then Some \<lparr>Major = 4, Minor = 4, Patch = 6, Pre = []\<rparr>
      else None)"

text \<open>One lease of cluster \<open>cd\<close> for every character of the alphabet, each owned by a pool
  of its own.\<close>

definition all_claimed :: "MachinePoolNameLease list" where
  "all_claimed = map (\<lambda>c. lease_of (''abc123-'' @ [c]) (''cd-pool'' @ [c])) validLeaseChars"

definition failing_actuator :: GCPActuator where
  "failing_actuator = stub_actuator\<lparr>ListComputeZones := second_page_fails\<rparr>"

definition create_fails_actuator :: GCPActuator where
  "create_fails_actuator =
     stub_actuator\<lparr>client_Create := (\<lambda>l. Some (ApiError ''already exists''))\<rparr>"

definition status_fails_actuator :: GCPActuator where
  "status_fails_actuator =
     stub_actuator\<lparr>client_Status_Update := (\<lambda>p. Some (ApiError ''conflict''))\<rparr>"

definition listing_actuator :: GCPActuator where
  "listing_actuator =
     stub_actuator\<lparr>client_List := (\<lambda>namespace ls. Inr [lease_of ''abc123-q'' ''cd-infra''])\<rparr>"

definition leasing_actuator :: GCPActuator where
  "leasing_actuator = stub_actuator\<lparr>leasesRequired := True\<rparr>"

subsection \<open>Notions the properties are stated with\<close>

text \<open>
  \<open>pagesFrom a f t ps\<close>: queried from page token \<open>t\<close> on, the cloud answers the pages
  \<open>ps\<close>, each but the last with a non-empty next-page token that is passed to the next
  query, the last with the empty token. \<open>pagesThenError a f t ps e\<close>: it answers the
  pages \<open>ps\<close>, each with a non-empty next-page token, and fails with \<open>e\<close> on the query
  after them. \<open>zoneNames\<close> are the zone names of pages, in order.
\<close>

fun pagesFrom :: "GCPActuator \<Rightarrow> string \<Rightarrow> string \<Rightarrow> ZoneList list \<Rightarrow> bool" where
  "pagesFrom a zoneFilter pageToken [] = False"
| "pagesFrom a zoneFilter pageToken [p] =
     (ListComputeZones a zoneFilter pageToken = Inr p \<and> zl_NextPageToken p = [])"
| "pagesFrom a zoneFilter pageToken (p # q # ps) =
     (ListComputeZones a zoneFilter pageToken = Inr p \<and> zl_NextPageToken p \<noteq> []
      \<and> pagesFrom a zoneFilter (zl_NextPageToken p) (q # ps))"

fun pagesThenError :: "GCPActuator \<Rightarrow> string \<Rightarrow> string \<Rightarrow> ZoneList list \<Rightarrow> error \<Rightarrow> bool" where
  "pagesThenError a zoneFilter pageToken [] e = (ListComputeZones a zoneFilter pageToken = Inl e)"
| "pagesThenError a zoneFilter pageToken (p # ps) e =
     (ListComputeZones a zoneFilter pageToken = Inr p \<and> zl_NextPageToken p \<noteq> []
      \<and> pagesThenError a zoneFilter (zl_NextPageToken p) ps e)"

definition zoneNames :: "ZoneList list \<Rightarrow> string list" where
  "zoneNames ps = concat (map (\<lambda>p. map zone_Name (zl_Items p)) ps)"

text \<open>The identity key of a pool in the expectation cache.\<close>

definition expectKey :: "MachinePool \<Rightarrow> string" where
  "expectKey pool = NamespacedName_String (pool_Namespace pool) (pool_Name pool)"

text \<open>The exhaustion condition as \<open>obtainLease\<close> sets it, and the two condition checks it
  makes.\<close>

definition exhausted :: MachinePoolCondition where
  "exhausted =
     \<lparr>cond_Type = NoMachinePoolNameLeasesAvailable, cond_Status = ConditionTrue,
      cond_Reason = ''OutOfMachinePoolNames'',
      cond_Message = ''All machine pool names are in use''\<rparr>"

definition exhaustedCheck :: "MachinePool \<Rightarrow> MachinePoolCondition list \<times> bool" where
  "exhaustedCheck pool =
     SetMachinePoolConditionWithChangeCheck (pool_Status_Conditions pool)
       NoMachinePoolNameLeasesAvailable ConditionTrue
       ''OutOfMachinePoolNames'' ''All machine pool names are in use''
       UpdateConditionIfReasonOrMessageChange"

definition availableCheck :: "MachinePool \<Rightarrow> MachinePoolCondition list \<times> bool" where
  "availableCheck pool =
     SetMachinePoolConditionWithChangeCheck (pool_Status_Conditions pool)
       NoMachinePoolNameLeasesAvailable ConditionFalse
       ''MachinePoolNamesAvailable'' ''Machine pool names available''
       UpdateConditionNever"

text \<open>
  The two ways a call of \<open>obtainLease\<close> ends. Quiet: no creation call and no change of
  the expectations, and, when no lease is labelled with the pool's name, no character
  returned. Claim: one creation call, for the lease of the selected character, with the
  expectation left registered when the store accepts the lease and deleted when it does
  not.
\<close>

definition outcome_quiet ::
  "MachinePool \<Rightarrow> ClusterDeployment \<Rightarrow> MachinePoolNameLease list \<Rightarrow> world
     \<Rightarrow> (error + string \<times> bool) \<Rightarrow> world \<Rightarrow> bool"
where
  "outcome_quiet pool cd leases w r w' =
     (createCalls w' = createCalls w \<and> expectations w' = expectations w
      \<and> expectationCalls w' = expectationCalls w
      \<and> (scanLeases pool cd leases = None \<longrightarrow> (\<forall>s p. r = Inr (s, p) \<longrightarrow> s = [] \<and> \<not> p)))"

definition outcome_claim ::
  "GCPActuator \<Rightarrow> MachinePool \<Rightarrow> ClusterDeployment \<Rightarrow> MachinePoolNameLease list \<Rightarrow> world
     \<Rightarrow> (error + string \<times> bool) \<Rightarrow> world \<Rightarrow> bool"
where
  "outcome_claim a pool cd leases w r w' =
     (\<exists>c md. cd_Spec_ClusterMetadata cd = Some md \<and> scanLeases pool cd leases = None
        \<and> (if pool_Spec_Name pool = ''worker'' then c = CHR ''w'' else c \<in> set validLeaseChars)
        \<and> createCalls w' = createCalls w @ [newLease pool cd (InfraID md @ ''-'' @ [c])]
        \<and> (case client_Create a (newLease pool cd (InfraID md @ ''-'' @ [c])) of
              None \<Rightarrow> r = Inr ([c], False)
                     \<and> expectations w' = (expectations w)(expectKey pool \<mapsto> 1)
                     \<and> expectationCalls w' = expectationCalls w @ [ExpectCreations_call (expectKey pool) 1]
            | Some err \<Rightarrow> r = Inl err
                     \<and> expectations w' = (expectations w)(expectKey pool := None)
                     \<and> expectationCalls w' = expectationCalls w
                           @ [ExpectCreations_call (expectKey pool) 1, DeleteExpectations_call (expectKey pool)]))"

section \<open>Properties\<close>

subsection \<open>Facts about the fixtures\<close>

lemma fixture_facts:
  "cd_Spec_ClusterMetadata cd_abc123 = Some \<lparr>InfraID = ''abc123''\<rparr>"
  "cd_Spec_Platform_GCP cd_abc123 = Some \<lparr>Region = ''us-east1''\<rparr>"
  "cd_Name cd_abc123 = ''cd''"
  "pool_Spec_Name (pool_named n) = n"
  "pool_Name (pool_named n) = ''cd-'' @ n"
  "pool_Namespace (pool_named n) = ''ns''"
  "pool_Status_Conditions (pool_named n) = []"
  "client_Create stub_actuator l = None"
  "client_Create leasing_actuator l = None"
  "client_Create create_fails_actuator l = Some (ApiError ''already exists'')"
  by (simp_all add: cd_abc123_def pool_named_def stub_actuator_def create_fails_actuator_def
        leasing_actuator_def)

lemma world0_facts:
  "createCalls world0 = []" "statusUpdateCalls world0 = []" "expectations world0 = Map.empty"
  "expectationCalls world0 = []"
  "randoms world0 = (\<lambda>i. 7)" "drawn world0 = 0"
  by (simp_all add: world0_def)

lemma lcz_stub: "ListComputeZones stub_actuator = two_pages"
  by (simp add: stub_actuator_def)

lemma lcz_failing: "ListComputeZones failing_actuator = second_page_fails"
  by (simp add: failing_actuator_def)

lemma two_pages_first:
  "two_pages (zone_filter ''us-east1'') [] =
     Inr \<lparr>zl_Items = [\<lparr>zone_Name = ''us-east1-b''\<rparr>, \<lparr>zone_Name = ''us-east1-c''\<rparr>],
          zl_NextPageToken = ''page2''\<rparr>"
  by (simp add: two_pages_def)

lemma two_pages_second:
  "two_pages (zone_filter ''us-east1'') ''page2'' =
     Inr \<lparr>zl_Items = [\<lparr>zone_Name = ''us-east1-d''\<rparr>], zl_NextPageToken = []\<rparr>"
  by (simp add: two_pages_def)

lemma second_page_fails_first:
  "second_page_fails (zone_filter ''us-east1'') [] =
     Inr \<lparr>zl_Items = [\<lparr>zone_Name = ''us-east1-b''\<rparr>, \<lparr>zone_Name = ''us-east1-c''\<rparr>],
          zl_NextPageToken = ''page2''\<rparr>"
  by (simp add: second_page_fails_def two_pages_first)

lemma second_page_fails_second:
  "second_page_fails (zone_filter ''us-east1'') ''page2'' = Inl (ApiError ''backend error'')"
  by (simp add: second_page_fails_def)

lemma one_image_abc123:
  "one_image (image_filter ''abc123'') = Inr \<lparr>il_Items = [\<lparr>image_Name = ''abc123-rhcos-image''\<rparr>]\<rparr>"
  by (simp add: one_image_def)

lemma stub_ParseTolerant_450:
  "stub_ParseTolerant ''4.5.0'' = Some \<lparr>Major = 4, Minor = 5, Patch = 0, Pre = []\<rparr>"
  by (simp add: stub_ParseTolerant_def)

subsection \<open>Image resolution\<close>

lemma image_messages_differ: "msg_zero_images infra \<noteq> msg_many_images infra"
  by (simp add: msg_zero_images_def msg_many_images_def)

text \<open>
  C8. The images that match are the items the cloud answers to the filter
  \<^verbatim>\<open>name eq "<infraId>-.*"\<close>. When there is exactly one, \<open>getImageID\<close> returns its name
  with no error; when there is none, and when there are two or more, it returns an error,
  and the two errors and their messages differ.
\<close>

theorem getImageID_by_count:
  assumes "cd_Spec_ClusterMetadata cd = Some md"
      and "ListComputeImages a (image_filter (InfraID md)) = Inr result"
  shows "(length (il_Items result) = 1
            \<longrightarrow> getImageID a cd = Inr (image_Name (hd (il_Items result))))
       \<and> (length (il_Items result) = 0
            \<longrightarrow> getImageID a cd = Inl (Errorf (msg_zero_images (InfraID md))))
       \<and> (length (il_Items result) \<ge> 2
            \<longrightarrow> getImageID a cd = Inl (Errorf (msg_many_images (InfraID md))))
       \<and> Errorf (msg_zero_images (InfraID md)) \<noteq> Errorf (msg_many_images (InfraID md))
       \<and> Error (Errorf (msg_zero_images (InfraID md)))
           \<noteq> Error (Errorf (msg_many_images (InfraID md)))"
proof -
  have one: "length (il_Items result) = 1 \<longrightarrow>
      getImageID a cd = Inr (image_Name (hd (il_Items result)))"
    using assms by (cases "il_Items result") (auto simp: getImageID_def split: list.splits)
  have zero: "length (il_Items result) = 0 \<longrightarrow>
      getImageID a cd = Inl (Errorf (msg_zero_images (InfraID md)))"
    using assms by (simp add: getImageID_def)
  have many: "length (il_Items result) \<ge> 2 \<longrightarrow>
      getImageID a cd = Inl (Errorf (msg_many_images (InfraID md)))"
    using assms by (cases "il_Items result") (auto simp: getImageID_def split: list.splits)
  show ?thesis using one zero many image_messages_differ by simp
qed

theorem getImageID_by_count_witness:
  "cd_Spec_ClusterMetadata cd_abc123 = Some \<lparr>InfraID = ''abc123''\<rparr>
   \<and> ListComputeImages stub_actuator (image_filter ''abc123'')
        = Inr \<lparr>il_Items = [\<lparr>image_Name = ''abc123-rhcos-image''\<rparr>]\<rparr>
   \<and> getImageID stub_actuator cd_abc123 = Inr ''abc123-rhcos-image''"
proof -
  have h1: "cd_Spec_ClusterMetadata cd_abc123 = Some \<lparr>InfraID = ''abc123''\<rparr>"
    by (rule fixture_facts)
  have h2: "ListComputeImages stub_actuator (image_filter (InfraID \<lparr>InfraID = ''abc123''\<rparr>))
        = Inr \<lparr>il_Items = [\<lparr>image_Name = ''abc123-rhcos-image''\<rparr>]\<rparr>"
    by (simp add: stub_actuator_def one_image_abc123)
  show ?thesis using getImageID_by_count [OF h1 h2] h1 h2 by simp
qed

subsection \<open>Zone resolution\<close>

lemma getZones_loop_pages:
  "pagesFrom a f tok ps \<Longrightarrow> length ps \<le> fuel \<Longrightarrow>
   getZones_loop fuel a f tok zones = Some (zones @ zoneNames ps, None)"
proof (induction a f tok ps arbitrary: fuel zones rule: pagesFrom.induct)
  case (1 a f tok)
  then show ?case by simp
next
  case (2 a f tok p)
  then obtain n where "fuel = Suc n" by (cases fuel) auto
  with 2 show ?case by (simp add: zoneNames_def)
next
  case (3 a f tok p q ps)
  then obtain n where n: "fuel = Suc n" by (cases fuel) auto
  from 3 have "getZones_loop n a f (zl_NextPageToken p) (zones @ map zone_Name (zl_Items p))
      = Some ((zones @ map zone_Name (zl_Items p)) @ zoneNames (q # ps), None)"
    using n by simp
  with 3 n show ?case by (simp add: zoneNames_def)
qed

lemma getZones_loop_error:
  "pagesThenError a f tok ps e \<Longrightarrow> length ps < fuel \<Longrightarrow>
   getZones_loop fuel a f tok zones = Some (zones @ zoneNames ps, Some e)"
proof (induction ps arbitrary: fuel zones tok)
  case Nil
  then obtain n where "fuel = Suc n" by (cases fuel) auto
  with Nil show ?case by (simp add: zoneNames_def)
next
  case (Cons p ps)
  then obtain n where n: "fuel = Suc n" by (cases fuel) auto
  from Cons have "getZones_loop n a f (zl_NextPageToken p) (zones @ map zone_Name (zl_Items p))
      = Some ((zones @ map zone_Name (zl_Items p)) @ zoneNames ps, Some e)"
    using n by simp
  with Cons n show ?case by (simp add: zoneNames_def)
qed

text \<open>
  C9, as amended. When the cloud answers the pages \<open>ps\<close> from the empty page token on,
  each non-empty next-page token being passed to the next query and the last page carrying
  the empty token, \<open>getZones\<close> returns, once allowed as many queries as there are pages,
  the zone names of all of them in order and no error. When the query fails after the pages
  \<open>ps\<close>, it returns that error together with the zone names of the pages before the
  failure; \<open>GenerateMachineSets\<close>, which calls it when the pool names no zones, then
  returns the error wrapped and none of those zones.
\<close>

theorem getZones_pages:
  "(pagesFrom a (zone_filter region) [] ps \<and> length ps \<le> fuel
      \<longrightarrow> getZones fuel a region = Some (zoneNames ps, None))
   \<and> (pagesThenError a (zone_filter region) [] ps e \<and> length ps < fuel
      \<longrightarrow> getZones fuel a region = Some (zoneNames ps, Some e))
   \<and> (getZones fuel a (Region cdgcp) = Some (zones, Some e)
        \<and> getImageID a cd = Inr imageID \<and> gcp_Zones poolgcp = []
      \<longrightarrow> buildMachineSets fuel d a cd md cdgcp pool poolgcp poolName clusterVersion
            = Some ([], False,
                Some (Wrap e ''compute pool not providing list of zones and failed to fetch list of zones'')))"
proof -
  have pages: "pagesFrom a (zone_filter region) [] ps \<and> length ps \<le> fuel
      \<longrightarrow> getZones fuel a region = Some (zoneNames ps, None)"
    using getZones_loop_pages [of a "zone_filter region" "[]" ps fuel "[]"]
    by (simp add: getZones_def)
  have failure: "pagesThenError a (zone_filter region) [] ps e \<and> length ps < fuel
      \<longrightarrow> getZones fuel a region = Some (zoneNames ps, Some e)"
    using getZones_loop_error [of a "zone_filter region" "[]" ps e fuel "[]"]
    by (simp add: getZones_def)
  have discard: "getZones fuel a (Region cdgcp) = Some (zones, Some e)
        \<and> getImageID a cd = Inr imageID \<and> gcp_Zones poolgcp = []
      \<longrightarrow> buildMachineSets fuel d a cd md cdgcp pool poolgcp poolName clusterVersion
            = Some ([], False,
                Some (Wrap e ''compute pool not providing list of zones and failed to fetch list of zones''))"
    by (simp add: buildMachineSets_def)
  show ?thesis using pages failure discard by blast
qed

theorem getZones_pages_witness:
  "pagesFrom stub_actuator (zone_filter ''us-east1'') []
     [\<lparr>zl_Items = [\<lparr>zone_Name = ''us-east1-b''\<rparr>, \<lparr>zone_Name = ''us-east1-c''\<rparr>],
       zl_NextPageToken = ''page2''\<rparr>,
      \<lparr>zl_Items = [\<lparr>zone_Name = ''us-east1-d''\<rparr>], zl_NextPageToken = []\<rparr>]
   \<and> getZones 2 stub_actuator ''us-east1''
       = Some ([''us-east1-b'', ''us-east1-c'', ''us-east1-d''], None)
   \<and> pagesThenError failing_actuator (zone_filter ''us-east1'') []
       [\<lparr>zl_Items = [\<lparr>zone_Name = ''us-east1-b''\<rparr>, \<lparr>zone_Name = ''us-east1-c''\<rparr>],
         zl_NextPageToken = ''page2''\<rparr>] (ApiError ''backend error'')
   \<and> getZones 2 failing_actuator ''us-east1''
       = Some ([''us-east1-b'', ''us-east1-c''], Some (ApiError ''backend error''))
   \<and> getImageID failing_actuator cd_abc123 = Inr ''abc123-rhcos-image''
   \<and> buildMachineSets 2 stub_deps failing_actuator cd_abc123 \<lparr>InfraID = ''abc123''\<rparr>
         \<lparr>Region = ''us-east1''\<rparr> (pool_named ''infra'')
         \<lparr>gcp_Zones = [], gcp_InstanceType = ''n1-standard-4''\<rparr> ''infra'' ''4.5.0''
       = Some ([], False,
           Some (Wrap (ApiError ''backend error'')
                   ''compute pool not providing list of zones and failed to fetch list of zones''))"
proof -
  let ?p1 = "\<lparr>zl_Items = [\<lparr>zone_Name = ''us-east1-b''\<rparr>, \<lparr>zone_Name = ''us-east1-c''\<rparr>],
       zl_NextPageToken = ''page2''\<rparr>"
  let ?p2 = "\<lparr>zl_Items = [\<lparr>zone_Name = ''us-east1-d''\<rparr>], zl_NextPageToken = []\<rparr>"
  have h1: "pagesFrom stub_actuator (zone_filter ''us-east1'') [] [?p1, ?p2]"
    by (simp add: lcz_stub two_pages_first two_pages_second)
  have h2: "pagesThenError failing_actuator (zone_filter ''us-east1'') [] [?p1]
              (ApiError ''backend error'')"
    by (simp add: lcz_failing second_page_fails_first second_page_fails_second)
  have z1: "zoneNames [?p1, ?p2] = [''us-east1-b'', ''us-east1-c'', ''us-east1-d'']"
    by (simp add: zoneNames_def)
  have z2: "zoneNames [?p1] = [''us-east1-b'', ''us-east1-c'']"
    by (simp add: zoneNames_def)
  from h1 have r1: "getZones 2 stub_actuator ''us-east1'' = Some (zoneNames [?p1, ?p2], None)"
    using getZones_pages [of stub_actuator "''us-east1''" "[?p1, ?p2]" 2] by simp
  from h2 have r2: "getZones 2 failing_actuator ''us-east1''
       = Some (zoneNames [?p1], Some (ApiError ''backend error''))"
    using getZones_pages [of failing_actuator "''us-east1''" "[?p1]" 2 "ApiError ''backend error''"]
    by simp
  have im: "getImageID failing_actuator cd_abc123 = Inr ''abc123-rhcos-image''"
    by (simp add: getImageID_def fixture_facts one_image_abc123 failing_actuator_def
          stub_actuator_def)
  have r3: "buildMachineSets 2 stub_deps failing_actuator cd_abc123 \<lparr>InfraID = ''abc123''\<rparr>
         \<lparr>Region = ''us-east1''\<rparr> (pool_named ''infra'')
         \<lparr>gcp_Zones = [], gcp_InstanceType = ''n1-standard-4''\<rparr> ''infra'' ''4.5.0''
       = Some ([], False,
           Some (Wrap (ApiError ''backend error'')
                   ''compute pool not providing list of zones and failed to fetch list of zones''))"
    using getZones_pages [of failing_actuator "''us-east1''" "[?p1]" 2 "ApiError ''backend error''"
            "\<lparr>Region = ''us-east1''\<rparr>" "zoneNames [?p1]" cd_abc123 "''abc123-rhcos-image''"
            "\<lparr>gcp_Zones = [], gcp_InstanceType = ''n1-standard-4''\<rparr>" stub_deps
            "\<lparr>InfraID = ''abc123''\<rparr>" "pool_named ''infra''" "''infra''" "''4.5.0''"]
          r2 im
    by simp
  show ?thesis using h1 h2 r1 r2 r3 im z1 z2 by simp
qed

text \<open>The second page fails: the zones of the first page come back beside the error.\<close>

theorem getZones_partial_counterexample:
  "getZones 2 failing_actuator ''us-east1''
     = Some ([''us-east1-b'', ''us-east1-c''], Some (ApiError ''backend error''))
   \<and> getZones 2 failing_actuator ''us-east1'' \<noteq> Some ([], Some (ApiError ''backend error''))"
  by (simp add: getZones_def numeral_2_eq_2 lcz_failing second_page_fails_first
        second_page_fails_second)

subsection \<open>The lease-requirement policy\<close>

lemma Split_length: "length (Split s sep) = Suc (count_list s sep)"
  by (induction s) (auto split: list.splits)

lemma Split_no_sep: "p \<in> set (Split s sep) \<Longrightarrow> sep \<notin> set p"
  by (induction s arbitrary: p) (auto split: list.splits if_splits)

lemma lookup_collectPoolNames:
  "lookup_bool (collectPoolNames mss m) k
     = (lookup_bool m k \<or> (\<exists>ms \<in> set mss. middleToken (ms_Name ms) = Some k))"
proof (induction mss arbitrary: m)
  case Nil
  then show ?case by simp
next
  case (Cons ms rest)
  show ?case
  proof (cases "length (Split (ms_Name ms) CHR ''-'') < 3")
    case True
    then show ?thesis using Cons by (simp add: middleToken_def Let_def)
  next
    case False
    then show ?thesis using Cons
      by (auto simp: middleToken_def Let_def lookup_bool_def)
  qed
qed

text \<open>
  C7. For a cluster version that parses to a version in the range \<^verbatim>\<open>>=4.4.7\<close>,
  \<open>requireLeases\<close> is true if and only if some existing machine set has the middle token
  \<open>w\<close> and none has the middle token \<open>worker\<close>.
\<close>

theorem requireLeases_supported_version:
  assumes "ParseTolerant clusterVersion = Some v"
      and "versionsSupportingFullNames v"
  shows "requireLeases ParseTolerant clusterVersion remoteMachineSets
           = ((\<exists>ms \<in> set remoteMachineSets. middleToken (ms_Name ms) = Some ''w'')
              \<and> \<not> (\<exists>ms \<in> set remoteMachineSets. middleToken (ms_Name ms) = Some ''worker''))"
proof -
  have empty: "\<And>k. lookup_bool Map.empty k = False"
    by (simp add: lookup_bool_def)
  show ?thesis using assms
    by (simp add: requireLeases_def Let_def lookup_collectPoolNames empty)
qed

theorem requireLeases_supported_version_witness:
  "stub_ParseTolerant ''4.5.0'' = Some \<lparr>Major = 4, Minor = 5, Patch = 0, Pre = []\<rparr>
   \<and> versionsSupportingFullNames \<lparr>Major = 4, Minor = 5, Patch = 0, Pre = []\<rparr>
   \<and> middleToken ''abc123-w-a'' = Some ''w''
   \<and> middleToken ''abc123-worker-b'' = Some ''worker''
   \<and> requireLeases stub_ParseTolerant ''4.5.0'' [\<lparr>ms_Name = ''abc123-w-a''\<rparr>]
   \<and> \<not> requireLeases stub_ParseTolerant ''4.5.0''
          [\<lparr>ms_Name = ''abc123-w-a''\<rparr>, \<lparr>ms_Name = ''abc123-worker-b''\<rparr>]"
proof -
  have h1: "stub_ParseTolerant ''4.5.0'' = Some \<lparr>Major = 4, Minor = 5, Patch = 0, Pre = []\<rparr>"
    by (rule stub_ParseTolerant_450)
  have h2: "versionsSupportingFullNames \<lparr>Major = 4, Minor = 5, Patch = 0, Pre = []\<rparr>"
    by (simp add: versionsSupportingFullNames_def)
  have m1: "middleToken ''abc123-w-a'' = Some ''w''"
    by (simp add: middleToken_def)
  have m2: "middleToken ''abc123-worker-b'' = Some ''worker''"
    by (simp add: middleToken_def)
  show ?thesis
    using requireLeases_supported_version [of stub_ParseTolerant "''4.5.0''" _
            "[\<lparr>ms_Name = ''abc123-w-a''\<rparr>]"]
          requireLeases_supported_version [of stub_ParseTolerant "''4.5.0''" _
            "[\<lparr>ms_Name = ''abc123-w-a''\<rparr>, \<lparr>ms_Name = ''abc123-worker-b''\<rparr>]"]
          h1 h2 m1 m2
    by simp
qed

subsection \<open>The lease allocator, path by path\<close>

lemma alphabet_excludes: "CHR ''m'' \<notin> set validLeaseChars" "CHR ''w'' \<notin> set validLeaseChars"
  by (simp_all add: validLeaseChars_def)

lemma alphabet_size: "length validLeaseChars = 34" "distinct validLeaseChars"
  by (simp_all add: validLeaseChars_def)

lemma scanLeases_None_iff:
  "scanLeases pool cd leases = None
     \<longleftrightarrow> (\<forall>l \<in> set leases. label (lease_Labels l) MachinePoolNameLabel \<noteq> pool_Name pool)"
  by (induction leases) auto

lemma deleteClaimed_subset:
  "deleteClaimed cd leases av = Inr r \<Longrightarrow> set r \<subseteq> set av"
proof (induction leases arbitrary: av)
  case Nil
  then show ?case by simp
next
  case (Cons l ls)
  show ?case
  proof (cases "label (lease_Labels l) ClusterDeploymentNameLabel \<noteq> cd_Name cd")
    case True
    with Cons show ?thesis by simp
  next
    case False
    with Cons.prems have ne: "lease_Name l \<noteq> []" by (auto split: if_splits)
    with False Cons.prems
    have "deleteClaimed cd ls (removeAll (last (lease_Name l)) av) = Inr r" by simp
    from Cons.IH [OF this] show ?thesis by auto
  qed
qed

lemma findAvailable_subset:
  "findAvailableLeaseChars cd leases = Inr av \<Longrightarrow> set av \<subseteq> set validLeaseChars"
  using deleteClaimed_subset [of cd leases "stringToRuneSet validLeaseChars" av]
  by (simp add: findAvailableLeaseChars_def stringToRuneSet_def)

lemma newLease_conditions [simp]:
  "newLease (pool\<lparr>pool_Status_Conditions := cs\<rparr>) cd n = newLease pool cd n"
  by (simp add: newLease_def)

lemma claimLease_no_metadata:
  "cd_Spec_ClusterMetadata cd = None \<Longrightarrow>
   claimLease a pool cd c w = (Inl (Panic ''nil pointer dereference''), w)"
  by (simp add: claimLease_def)

lemma claimLease_created:
  "cd_Spec_ClusterMetadata cd = Some md \<Longrightarrow>
   client_Create a (newLease pool cd (InfraID md @ ''-'' @ [c])) = None \<Longrightarrow>
   claimLease a pool cd c w =
     (Inr ([c], False),
      w\<lparr>expectations := (expectations w)(expectKey pool \<mapsto> 1),
             expectationCalls := expectationCalls w @ [ExpectCreations_call (expectKey pool) 1],
        createCalls := createCalls w @ [newLease pool cd (InfraID md @ ''-'' @ [c])]\<rparr>)"
  by (simp add: claimLease_def Let_def ExpectCreations_def expectKey_def)

lemma claimLease_failed:
  "cd_Spec_ClusterMetadata cd = Some md \<Longrightarrow>
   client_Create a (newLease pool cd (InfraID md @ ''-'' @ [c])) = Some err \<Longrightarrow>
   claimLease a pool cd c w =
     (Inl err,
      w\<lparr>expectations := (expectations w)(expectKey pool := None),
             expectationCalls := expectationCalls w
               @ [ExpectCreations_call (expectKey pool) 1, DeleteExpectations_call (expectKey pool)],
        createCalls := createCalls w @ [newLease pool cd (InfraID md @ ''-'' @ [c])]\<rparr>)"
  by (simp add: claimLease_def Let_def ExpectCreations_def DeleteExpectations_def expectKey_def)

lemma updateIfChanged_frame:
  assumes "updateIfChanged a pool r w = (e, pool1, w1)"
  shows "createCalls w1 = createCalls w" "expectations w1 = expectations w"
        "randoms w1 = randoms w" "drawn w1 = drawn w"
        "\<exists>cs. pool1 = pool\<lparr>pool_Status_Conditions := cs\<rparr>"
        "expectationCalls w1 = expectationCalls w"
proof -
  obtain conds changed where r: "r = (conds, changed)" by (cases r)
  show "createCalls w1 = createCalls w" "expectations w1 = expectations w"
        "randoms w1 = randoms w" "drawn w1 = drawn w" "expectationCalls w1 = expectationCalls w"
    using assms r by (auto simp: updateIfChanged_def Let_def split: if_splits)
  show "\<exists>cs. pool1 = pool\<lparr>pool_Status_Conditions := cs\<rparr>"
  proof (cases changed)
    case True
    with assms r show ?thesis by (auto simp: updateIfChanged_def Let_def)
  next
    case False
    with assms r have "pool1 = pool" by (simp add: updateIfChanged_def)
    then have "pool1 = pool\<lparr>pool_Status_Conditions := pool_Status_Conditions pool\<rparr>" by simp
    then show ?thesis by blast
  qed
qed

lemma obtainLease_existing:
  "scanLeases pool cd leases = Some r \<Longrightarrow> obtainLease a pool cd leases w = (r, pool, w)"
  by (simp add: obtainLease_def)

lemma obtainLease_worker:
  "scanLeases pool cd leases = None \<Longrightarrow> pool_Spec_Name pool = ''worker'' \<Longrightarrow>
   obtainLease a pool cd leases w =
     (fst (claimLease a pool cd CHR ''w'' w), pool, snd (claimLease a pool cd CHR ''w'' w))"
  by (simp add: obtainLease_def split: prod.splits)

lemma obtainLease_avail_error:
  "scanLeases pool cd leases = None \<Longrightarrow> pool_Spec_Name pool \<noteq> ''worker'' \<Longrightarrow>
   findAvailableLeaseChars cd leases = Inl err \<Longrightarrow>
   obtainLease a pool cd leases w = (Inl err, pool, w)"
  by (simp add: obtainLease_def)

lemma obtainLease_exhausted:
  "scanLeases pool cd leases = None \<Longrightarrow> pool_Spec_Name pool \<noteq> ''worker'' \<Longrightarrow>
   findAvailableLeaseChars cd leases = Inr [] \<Longrightarrow>
   updateIfChanged a pool (exhaustedCheck pool) w = (e, pool1, w1) \<Longrightarrow>
   obtainLease a pool cd leases w =
     (case e of Some err \<Rightarrow> Inl err | None \<Rightarrow> Inr ([], False), pool1, w1)"
  by (simp add: obtainLease_def exhaustedCheck_def split: option.splits)

lemma obtainLease_update_error:
  "scanLeases pool cd leases = None \<Longrightarrow> pool_Spec_Name pool \<noteq> ''worker'' \<Longrightarrow>
   findAvailableLeaseChars cd leases = Inr av \<Longrightarrow> av \<noteq> [] \<Longrightarrow>
   updateIfChanged a pool (availableCheck pool) w = (Some err, pool1, w1) \<Longrightarrow>
   obtainLease a pool cd leases w = (Inl err, pool1, w1)"
  by (simp add: obtainLease_def availableCheck_def)

lemma obtainLease_select:
  "scanLeases pool cd leases = None \<Longrightarrow> pool_Spec_Name pool \<noteq> ''worker'' \<Longrightarrow>
   findAvailableLeaseChars cd leases = Inr av \<Longrightarrow> av \<noteq> [] \<Longrightarrow>
   updateIfChanged a pool (availableCheck pool) w = (None, pool1, w1) \<Longrightarrow>
   obtainLease a pool cd leases w =
     (fst (claimLease a pool1 cd (av ! (randoms w1 (drawn w1) mod length av))
             (w1\<lparr>drawn := Suc (drawn w1)\<rparr>)),
      pool1,
      snd (claimLease a pool1 cd (av ! (randoms w1 (drawn w1) mod length av))
             (w1\<lparr>drawn := Suc (drawn w1)\<rparr>)))"
  by (simp add: obtainLease_def availableCheck_def rand_Intn_def split: prod.splits)

lemma claimLease_outcome:
  assumes "claimLease a pool cd c w = (r, w')"
  shows "(cd_Spec_ClusterMetadata cd = None \<and> w' = w \<and> (\<exists>e. r = Inl e))
       \<or> (\<exists>md. cd_Spec_ClusterMetadata cd = Some md
            \<and> createCalls w' = createCalls w @ [newLease pool cd (InfraID md @ ''-'' @ [c])]
            \<and> (case client_Create a (newLease pool cd (InfraID md @ ''-'' @ [c])) of
                  None \<Rightarrow> r = Inr ([c], False)
                         \<and> expectations w' = (expectations w)(expectKey pool \<mapsto> 1)
                     \<and> expectationCalls w' = expectationCalls w @ [ExpectCreations_call (expectKey pool) 1]
                | Some err \<Rightarrow> r = Inl err
                         \<and> expectations w' = (expectations w)(expectKey pool := None)
                     \<and> expectationCalls w' = expectationCalls w
                           @ [ExpectCreations_call (expectKey pool) 1, DeleteExpectations_call (expectKey pool)]))"
proof (cases "cd_Spec_ClusterMetadata cd")
  case None
  with assms show ?thesis by (auto simp: claimLease_no_metadata)
next
  case (Some md)
  show ?thesis
  proof (cases "client_Create a (newLease pool cd (InfraID md @ ''-'' @ [c]))")
    case None
    from claimLease_created [OF Some None, of w] assms Some None
    show ?thesis by auto
  next
    case (Some err)
    from claimLease_failed [OF \<open>cd_Spec_ClusterMetadata cd = Some md\<close> Some, of w] assms
         \<open>cd_Spec_ClusterMetadata cd = Some md\<close> Some
    show ?thesis by auto
  qed
qed

lemma claim_step:
  assumes cl: "claimLease a pool1 cd c w1 = (r, w')"
      and p1: "pool1 = pool\<lparr>pool_Status_Conditions := cs\<rparr>"
      and fr: "createCalls w1 = createCalls w" "expectations w1 = expectations w"
              "expectationCalls w1 = expectationCalls w"
      and sc: "scanLeases pool cd leases = None"
      and ch: "if pool_Spec_Name pool = ''worker'' then c = CHR ''w'' else c \<in> set validLeaseChars"
  shows "outcome_quiet pool cd leases w r w' \<or> outcome_claim a pool cd leases w r w'"
proof -
  have key: "expectKey pool1 = expectKey pool" using p1 by (simp add: expectKey_def)
  from claimLease_outcome [OF cl]
  show ?thesis
  proof
    assume "cd_Spec_ClusterMetadata cd = None \<and> w' = w1 \<and> (\<exists>e. r = Inl e)"
    with fr have "outcome_quiet pool cd leases w r w'"
      by (auto simp: outcome_quiet_def)
    then show ?thesis ..
  next
    assume "\<exists>md. cd_Spec_ClusterMetadata cd = Some md
            \<and> createCalls w' = createCalls w1 @ [newLease pool1 cd (InfraID md @ ''-'' @ [c])]
            \<and> (case client_Create a (newLease pool1 cd (InfraID md @ ''-'' @ [c])) of
                  None \<Rightarrow> r = Inr ([c], False)
                         \<and> expectations w' = (expectations w1)(expectKey pool1 \<mapsto> 1)
                     \<and> expectationCalls w' = expectationCalls w1 @ [ExpectCreations_call (expectKey pool1) 1]
                | Some err \<Rightarrow> r = Inl err
                         \<and> expectations w' = (expectations w1)(expectKey pool1 := None)
                     \<and> expectationCalls w' = expectationCalls w1
                           @ [ExpectCreations_call (expectKey pool1) 1, DeleteExpectations_call (expectKey pool1)])"
    then obtain md where md: "cd_Spec_ClusterMetadata cd = Some md"
      and cc: "createCalls w' = createCalls w1 @ [newLease pool1 cd (InfraID md @ ''-'' @ [c])]"
      and rs: "case client_Create a (newLease pool1 cd (InfraID md @ ''-'' @ [c])) of
                  None \<Rightarrow> r = Inr ([c], False)
                         \<and> expectations w' = (expectations w1)(expectKey pool1 \<mapsto> 1)
                     \<and> expectationCalls w' = expectationCalls w1 @ [ExpectCreations_call (expectKey pool1) 1]
                | Some err \<Rightarrow> r = Inl err
                         \<and> expectations w' = (expectations w1)(expectKey pool1 := None)
                     \<and> expectationCalls w' = expectationCalls w1
                           @ [ExpectCreations_call (expectKey pool1) 1, DeleteExpectations_call (expectKey pool1)]"
      by blast
    have nl: "newLease pool1 cd (InfraID md @ ''-'' @ [c]) = newLease pool cd (InfraID md @ ''-'' @ [c])"
      using p1 by simp
    have cc': "createCalls w' = createCalls w @ [newLease pool cd (InfraID md @ ''-'' @ [c])]"
      using cc fr(1) nl by (simp only:)
    have rs': "case client_Create a (newLease pool cd (InfraID md @ ''-'' @ [c])) of
                  None \<Rightarrow> r = Inr ([c], False)
                         \<and> expectations w' = (expectations w)(expectKey pool \<mapsto> 1)
                     \<and> expectationCalls w' = expectationCalls w @ [ExpectCreations_call (expectKey pool) 1]
                | Some err \<Rightarrow> r = Inl err
                         \<and> expectations w' = (expectations w)(expectKey pool := None)
                     \<and> expectationCalls w' = expectationCalls w
                           @ [ExpectCreations_call (expectKey pool) 1, DeleteExpectations_call (expectKey pool)]"
      using rs fr(2) fr(3) key nl by (simp only:)
    have "outcome_claim a pool cd leases w r w'"
      unfolding outcome_claim_def
      using md sc ch cc' rs' by blast
    then show ?thesis ..
  qed
qed

lemma obtainLease_outcome:
  assumes ol: "obtainLease a pool cd leases w = (r, pool', w')"
  shows "outcome_quiet pool cd leases w r w' \<or> outcome_claim a pool cd leases w r w'"
proof (cases "scanLeases pool cd leases")
  case (Some r0)
  with ol obtainLease_existing [OF Some, of a w]
  have "outcome_quiet pool cd leases w r w'" by (simp add: outcome_quiet_def)
  then show ?thesis ..
next
  case None
  show ?thesis
  proof (cases "pool_Spec_Name pool = ''worker''")
    case True
    from obtainLease_worker [OF None True, of a w] ol
    have cl: "claimLease a pool cd CHR ''w'' w = (r, w')" by (simp add: prod_eq_iff)
    have p: "pool = pool\<lparr>pool_Status_Conditions := pool_Status_Conditions pool\<rparr>" by simp
    from claim_step [OF _ p _ _ _ None, of a "CHR ''w''" w r w'] cl True
    show ?thesis by simp
  next
    case False
    show ?thesis
    proof (cases "findAvailableLeaseChars cd leases")
      case (Inl err)
      from obtainLease_avail_error [OF None False Inl, of a w] ol
      have "outcome_quiet pool cd leases w r w'" by (simp add: outcome_quiet_def)
      then show ?thesis ..
    next
      case (Inr av)
      show ?thesis
      proof (cases "av = []")
        case True
        obtain e pool1 w1 where u: "updateIfChanged a pool (exhaustedCheck pool) w = (e, pool1, w1)"
          by (cases "updateIfChanged a pool (exhaustedCheck pool) w") auto
        from Inr True have av0: "findAvailableLeaseChars cd leases = Inr []" by simp
        from obtainLease_exhausted [OF None False av0 u] ol updateIfChanged_frame(1,2,6) [OF u]
        have "outcome_quiet pool cd leases w r w'"
          by (auto simp: outcome_quiet_def split: option.splits)
        then show ?thesis ..
      next
        case ne: False
        obtain e pool1 w1 where u: "updateIfChanged a pool (availableCheck pool) w = (e, pool1, w1)"
          by (cases "updateIfChanged a pool (availableCheck pool) w") auto
        note fr = updateIfChanged_frame [OF u]
        show ?thesis
        proof (cases e)
          case (Some err)
          from obtainLease_update_error [OF None False Inr ne u [unfolded Some]] ol fr(1,2,6)
          have "outcome_quiet pool cd leases w r w'" by (auto simp: outcome_quiet_def)
          then show ?thesis ..
        next
          case eN: None
          let ?c = "av ! (randoms w1 (drawn w1) mod length av)"
          let ?w2 = "w1\<lparr>drawn := Suc (drawn w1)\<rparr>"
          from obtainLease_select [OF None False Inr ne u [unfolded eN]] ol
          have cl: "claimLease a pool1 cd ?c ?w2 = (r, w')" by (simp add: prod_eq_iff)
          from fr(5) obtain cs where p1: "pool1 = pool\<lparr>pool_Status_Conditions := cs\<rparr>" by blast
          have "?c \<in> set av" using ne by simp
          with findAvailable_subset [OF Inr] have "?c \<in> set validLeaseChars" by blast
          with False have ch: "if pool_Spec_Name pool = ''worker'' then ?c = CHR ''w''
                               else ?c \<in> set validLeaseChars" by simp
          have f1: "createCalls ?w2 = createCalls w" using fr(1) by simp
          have f2: "expectations ?w2 = expectations w" using fr(2) by simp
          have f3: "expectationCalls ?w2 = expectationCalls w" using fr(6) by simp
          from claim_step [OF cl p1 f1 f2 f3 None ch] show ?thesis .
        qed
      qed
    qed
  qed
qed

lemma obtainLease_worker_unleased:
  assumes md: "cd_Spec_ClusterMetadata cd = Some md"
      and wk: "pool_Spec_Name pool = ''worker''"
  shows "obtainLease a pool cd [] w =
     (case client_Create a (newLease pool cd (InfraID md @ ''-w'')) of
        None \<Rightarrow>
          (Inr (''w'', False), pool,
           w\<lparr>expectations := (expectations w)(expectKey pool \<mapsto> 1),
             expectationCalls := expectationCalls w @ [ExpectCreations_call (expectKey pool) 1],
             createCalls := createCalls w @ [newLease pool cd (InfraID md @ ''-w'')]\<rparr>)
      | Some err \<Rightarrow>
          (Inl err, pool,
           w\<lparr>expectations := (expectations w)(expectKey pool := None),
             expectationCalls := expectationCalls w
               @ [ExpectCreations_call (expectKey pool) 1, DeleteExpectations_call (expectKey pool)],
             createCalls := createCalls w @ [newLease pool cd (InfraID md @ ''-w'')]\<rparr>))"
proof (cases "client_Create a (newLease pool cd (InfraID md @ ''-w''))")
  case None
  then have "client_Create a (newLease pool cd (InfraID md @ ''-'' @ [CHR ''w''])) = None" by simp
  from claimLease_created [OF md this, of w] None wk show ?thesis
    by (simp add: obtainLease_def)
next
  case (Some err)
  then have "client_Create a (newLease pool cd (InfraID md @ ''-'' @ [CHR ''w''])) = Some err" by simp
  from claimLease_failed [OF md this, of w] Some wk show ?thesis
    by (simp add: obtainLease_def)
qed


text \<open>
  C1, as amended. For a cluster with infra id \<open>abc123\<close> and a pool whose logical name is
  \<open>worker\<close>, with no visible lease, \<open>obtainLease\<close> registers the expectation and issues
  one creation call, for the lease \<open>abc123-w\<close>. When the store accepts the lease it returns
  \<open>w\<close> with proceed false and no error; when it does not, it returns the store's error and
  the expectation is deleted.
\<close>

theorem obtainLease_worker_no_leases:
  assumes "cd_Spec_ClusterMetadata cd = Some md"
      and "InfraID md = ''abc123''"
      and "pool_Spec_Name pool = ''worker''"
  shows "obtainLease a pool cd [] w =
     (case client_Create a (newLease pool cd ''abc123-w'') of
        None \<Rightarrow>
          (Inr (''w'', False), pool,
           w\<lparr>expectations := (expectations w)(expectKey pool \<mapsto> 1),
             expectationCalls := expectationCalls w @ [ExpectCreations_call (expectKey pool) 1],
             createCalls := createCalls w @ [newLease pool cd ''abc123-w'']\<rparr>)
      | Some err \<Rightarrow>
          (Inl err, pool,
           w\<lparr>expectations := (expectations w)(expectKey pool := None),
             expectationCalls := expectationCalls w
               @ [ExpectCreations_call (expectKey pool) 1, DeleteExpectations_call (expectKey pool)],
             createCalls := createCalls w @ [newLease pool cd ''abc123-w'']\<rparr>))"
  using obtainLease_worker_unleased [OF assms(1) assms(3), of a w] assms(2)
  by (simp split: option.splits)

theorem obtainLease_worker_no_leases_witness:
  "cd_Spec_ClusterMetadata cd_abc123 = Some \<lparr>InfraID = ''abc123''\<rparr>
   \<and> InfraID \<lparr>InfraID = ''abc123''\<rparr> = ''abc123''
   \<and> pool_Spec_Name (pool_named ''worker'') = ''worker''
   \<and> fst (obtainLease stub_actuator (pool_named ''worker'') cd_abc123 [] world0)
        = Inr (''w'', False)
   \<and> createCalls (snd (snd (obtainLease stub_actuator (pool_named ''worker'') cd_abc123 [] world0)))
        = [newLease (pool_named ''worker'') cd_abc123 ''abc123-w'']"
proof -
  have h1: "cd_Spec_ClusterMetadata cd_abc123 = Some \<lparr>InfraID = ''abc123''\<rparr>"
    by (rule fixture_facts)
  have h2: "InfraID \<lparr>InfraID = ''abc123''\<rparr> = ''abc123''" by simp
  have h3: "pool_Spec_Name (pool_named ''worker'') = ''worker''" by (rule fixture_facts)
  have c0: "createCalls world0 = []" by (simp add: world0_def)
  show ?thesis
    using obtainLease_worker_no_leases [OF h1 h2 h3, of stub_actuator world0] h1 h3 c0
    by (simp add: fixture_facts)
qed

text \<open>On the scenario itself the store accepts the lease: proceed is false and one creation
  call was issued.\<close>

theorem worker_no_leases_counterexample:
  "obtainLease stub_actuator (pool_named ''worker'') cd_abc123 [] world0
     \<noteq> (Inr (''w'', True), pool_named ''worker'', world0)
   \<and> fst (obtainLease stub_actuator (pool_named ''worker'') cd_abc123 [] world0)
        = Inr (''w'', False)
   \<and> createCalls (snd (snd (obtainLease stub_actuator (pool_named ''worker'') cd_abc123 [] world0)))
        = [newLease (pool_named ''worker'') cd_abc123 ''abc123-w'']"
proof -
  have c0: "createCalls world0 = []" by (simp add: world0_def)
  show ?thesis
    using obtainLease_worker_unleased [of cd_abc123 "\<lparr>InfraID = ''abc123''\<rparr>"
            "pool_named ''worker''" stub_actuator world0] c0
    by (simp add: fixture_facts)
qed

subsection \<open>The lease allocator: existing leases, claims and characters\<close>

lemma label_lease_of:
  "label (lease_Labels (lease_of n p)) MachinePoolNameLabel = p"
  "label (lease_Labels (lease_of n p)) ClusterDeploymentNameLabel = ''cd''"
  "lease_Name (lease_of n p) = n"
  by (simp_all add: lease_of_def label_def MachinePoolNameLabel_def ClusterDeploymentNameLabel_def)

lemma scanLeases_first:
  "find (\<lambda>l. label (lease_Labels l) MachinePoolNameLabel = pool_Name pool) leases = Some l
   \<Longrightarrow> scanLeases pool cd leases = scanLeases pool cd [l]"
proof (induction leases)
  case Nil
  then show ?case by simp
next
  case (Cons x xs)
  show ?case
  proof (cases "label (lease_Labels x) MachinePoolNameLabel = pool_Name pool")
    case True
    with Cons.prems have "x = l" by simp
    with True show ?thesis by simp
  next
    case False
    with Cons.prems
    have "find (\<lambda>l. label (lease_Labels l) MachinePoolNameLabel = pool_Name pool) xs = Some l"
      by simp
    from Cons.IH [OF this] False have "scanLeases pool cd (x # xs) = scanLeases pool cd [l]"
      by simp
    then show ?thesis .
  qed
qed

lemma find_labelled:
  "find P leases = Some l \<Longrightarrow> P l"
  by (induction leases) (auto split: if_splits)

text \<open>
  C4. Let \<open>l\<close> be the first visible lease whose owning-pool label equals the pool's name.
  If its identifier is \<open><infra id>-c\<close> for a single character \<open>c\<close>, \<open>obtainLease\<close> returns
  \<open>c\<close> with proceed true and no error; otherwise it returns an error, which for a
  non-empty identifier is the format error (slicing an empty identifier panics). On both
  paths the pool and the state are as they were: no creation call, no expectation, no
  status write.
\<close>

theorem obtainLease_existing_lease:
  assumes md: "cd_Spec_ClusterMetadata cd = Some md"
      and fd: "find (\<lambda>l. label (lease_Labels l) MachinePoolNameLabel = pool_Name pool) leases
                 = Some l"
  shows "(\<forall>c. lease_Name l = InfraID md @ ''-'' @ [c]
            \<longrightarrow> obtainLease a pool cd leases w = (Inr ([c], True), pool, w))
       \<and> ((\<forall>c. lease_Name l \<noteq> InfraID md @ ''-'' @ [c])
            \<longrightarrow> (\<exists>e. obtainLease a pool cd leases w = (Inl e, pool, w)))
       \<and> ((\<forall>c. lease_Name l \<noteq> InfraID md @ ''-'' @ [c]) \<and> lease_Name l \<noteq> []
            \<longrightarrow> obtainLease a pool cd leases w
                  = (Inl (lease_format_error (lease_Name l)
                            (InfraID md @ ''-'' @ [last (lease_Name l)])), pool, w))"
proof -
  have lab: "label (lease_Labels l) MachinePoolNameLabel = pool_Name pool"
    using find_labelled [OF fd] .
  have sc: "scanLeases pool cd leases = scanLeases pool cd [l]"
    using scanLeases_first [OF fd] .
  have valid: "obtainLease a pool cd leases w = (Inr ([c], True), pool, w)"
    if "lease_Name l = InfraID md @ ''-'' @ [c]" for c
  proof -
    from that have "scanLeases pool cd [l] = Some (Inr ([c], True))"
      using lab md by simp
    with sc show ?thesis by (simp add: obtainLease_existing)
  qed
  have mismatch: "obtainLease a pool cd leases w
                  = (Inl (lease_format_error (lease_Name l)
                            (InfraID md @ ''-'' @ [last (lease_Name l)])), pool, w)"
    if "\<forall>c. lease_Name l \<noteq> InfraID md @ ''-'' @ [c]" and "lease_Name l \<noteq> []"
  proof -
    from that(1) have "InfraID md @ ''-'' @ [last (lease_Name l)] \<noteq> lease_Name l"
      by metis
    with that(2) have "scanLeases pool cd [l]
        = Some (Inl (lease_format_error (lease_Name l)
                       (InfraID md @ ''-'' @ [last (lease_Name l)])))"
      using lab md by simp
    with sc show ?thesis by (simp add: obtainLease_existing)
  qed
  have invalid: "\<exists>e. obtainLease a pool cd leases w = (Inl e, pool, w)"
    if "\<forall>c. lease_Name l \<noteq> InfraID md @ ''-'' @ [c]"
  proof (cases "lease_Name l = []")
    case True
    then have "scanLeases pool cd [l] = Some (Inl (Panic ''slice bounds out of range''))"
      using lab by simp
    with sc show ?thesis by (simp add: obtainLease_existing)
  next
    case False
    with mismatch that show ?thesis by blast
  qed
  show ?thesis using valid mismatch invalid by blast
qed

theorem obtainLease_existing_lease_witness:
  "cd_Spec_ClusterMetadata cd_abc123 = Some \<lparr>InfraID = ''abc123''\<rparr>
   \<and> find (\<lambda>l. label (lease_Labels l) MachinePoolNameLabel = pool_Name (pool_named ''infra''))
        [lease_of ''abc123-q'' ''cd-infra''] = Some (lease_of ''abc123-q'' ''cd-infra'')
   \<and> obtainLease stub_actuator (pool_named ''infra'') cd_abc123
        [lease_of ''abc123-q'' ''cd-infra''] world0
       = (Inr (''q'', True), pool_named ''infra'', world0)
   \<and> find (\<lambda>l. label (lease_Labels l) MachinePoolNameLabel = pool_Name (pool_named ''infra''))
        [lease_of ''abc123-qq'' ''cd-infra''] = Some (lease_of ''abc123-qq'' ''cd-infra'')
   \<and> obtainLease stub_actuator (pool_named ''infra'') cd_abc123
        [lease_of ''abc123-qq'' ''cd-infra''] world0
       = (Inl (lease_format_error ''abc123-qq'' ''abc123-q''), pool_named ''infra'', world0)"
proof -
  have h1: "cd_Spec_ClusterMetadata cd_abc123 = Some \<lparr>InfraID = ''abc123''\<rparr>"
    by (rule fixture_facts)
  have h2: "find (\<lambda>l. label (lease_Labels l) MachinePoolNameLabel = pool_Name (pool_named ''infra''))
        [lease_of ''abc123-q'' ''cd-infra''] = Some (lease_of ''abc123-q'' ''cd-infra'')"
    by (simp add: label_lease_of fixture_facts)
  have h3: "find (\<lambda>l. label (lease_Labels l) MachinePoolNameLabel = pool_Name (pool_named ''infra''))
        [lease_of ''abc123-qq'' ''cd-infra''] = Some (lease_of ''abc123-qq'' ''cd-infra'')"
    by (simp add: label_lease_of fixture_facts)
  have n3: "\<forall>c. lease_Name (lease_of ''abc123-qq'' ''cd-infra'')
              \<noteq> InfraID \<lparr>InfraID = ''abc123''\<rparr> @ ''-'' @ [c]"
    by (simp add: label_lease_of)
  show ?thesis
    using obtainLease_existing_lease [OF h1 h2, of stub_actuator world0]
          obtainLease_existing_lease [OF h1 h3, of stub_actuator world0] h1 h2 h3 n3
    by (simp add: label_lease_of)
qed

lemma outcome_claim_call:
  assumes oc: "obtainLease a pool cd leases w = (r, pool', w')"
      and cc: "createCalls w' = createCalls w @ [l]"
  shows "\<exists>c md. cd_Spec_ClusterMetadata cd = Some md \<and> scanLeases pool cd leases = None
        \<and> (if pool_Spec_Name pool = ''worker'' then c = CHR ''w'' else c \<in> set validLeaseChars)
        \<and> l = newLease pool cd (InfraID md @ ''-'' @ [c])
        \<and> (case client_Create a l of
              None \<Rightarrow> r = Inr ([c], False)
                     \<and> expectations w' = (expectations w)(expectKey pool \<mapsto> 1)
                     \<and> expectationCalls w' = expectationCalls w @ [ExpectCreations_call (expectKey pool) 1]
            | Some err \<Rightarrow> r = Inl err
                     \<and> expectations w' = (expectations w)(expectKey pool := None)
                     \<and> expectationCalls w' = expectationCalls w
                           @ [ExpectCreations_call (expectKey pool) 1, DeleteExpectations_call (expectKey pool)])"
proof -
  from obtainLease_outcome [OF oc]
  have "outcome_claim a pool cd leases w r w'"
  proof
    assume "outcome_quiet pool cd leases w r w'"
    with cc show ?thesis by (simp add: outcome_quiet_def)
  qed
  then obtain c md where
        "cd_Spec_ClusterMetadata cd = Some md" "scanLeases pool cd leases = None"
        "if pool_Spec_Name pool = ''worker'' then c = CHR ''w'' else c \<in> set validLeaseChars"
        "createCalls w' = createCalls w @ [newLease pool cd (InfraID md @ ''-'' @ [c])]"
        "case client_Create a (newLease pool cd (InfraID md @ ''-'' @ [c])) of
              None \<Rightarrow> r = Inr ([c], False)
                     \<and> expectations w' = (expectations w)(expectKey pool \<mapsto> 1)
                     \<and> expectationCalls w' = expectationCalls w @ [ExpectCreations_call (expectKey pool) 1]
            | Some err \<Rightarrow> r = Inl err
                     \<and> expectations w' = (expectations w)(expectKey pool := None)
                     \<and> expectationCalls w' = expectationCalls w
                           @ [ExpectCreations_call (expectKey pool) 1, DeleteExpectations_call (expectKey pool)]"
    unfolding outcome_claim_def by blast
  moreover from this(4) cc have "l = newLease pool cd (InfraID md @ ''-'' @ [c])" by simp
  ultimately show ?thesis by blast
qed

text \<open>
  C6. Whenever \<open>obtainLease\<close> issues a creation call and the store answers it with an
  error, \<open>obtainLease\<close> returns that error, and its calls to the expectation cache were
  \<open>ExpectCreations\<close> of one creation for the pool's key followed by \<open>DeleteExpectations\<close>
  for the same key: the cache has no entry for the key afterwards, and every other key is
  as it was.
\<close>

theorem obtainLease_create_failure:
  assumes "obtainLease a pool cd leases w = (r, pool', w')"
      and "createCalls w' = createCalls w @ [l]"
      and "client_Create a l = Some err"
  shows "r = Inl err
       \<and> expectationCalls w' = expectationCalls w
             @ [ExpectCreations_call (expectKey pool) 1, DeleteExpectations_call (expectKey pool)]
       \<and> expectations w' (expectKey pool) = None
       \<and> (\<forall>k. k \<noteq> expectKey pool \<longrightarrow> expectations w' k = expectations w k)"
  using outcome_claim_call [OF assms(1) assms(2)] assms(3) by auto

lemma newLease_name: "lease_Name (newLease pool cd n) = n"
  by (simp add: newLease_def)

text \<open>
  C2. Whenever \<open>obtainLease\<close> issues a creation call and the store accepts the lease, it
  returns the character the lease is named by, with proceed false and no error; and the
  invocation of \<open>GenerateMachineSets\<close> that made this call returns no machine sets, not
  ready, no error, whatever the bound on the zone query.
\<close>

theorem obtainLease_created_not_ready:
  assumes ol: "obtainLease a pool cd leases w = (r, pool', w')"
      and cc: "createCalls w' = createCalls w @ [l]"
      and ok: "client_Create a l = None"
  shows "(\<exists>c md. r = Inr ([c], False) \<and> cd_Spec_ClusterMetadata cd = Some md
             \<and> lease_Name l = InfraID md @ ''-'' @ [c])
       \<and> (cd_Spec_Platform_GCP cd \<noteq> None \<and> pool_Spec_Platform_GCP pool \<noteq> None
            \<and> getClusterVersion d cd = Inr clusterVersion
            \<and> client_List a (pool_Namespace pool) [(ClusterDeploymentNameLabel, cd_Name cd)]
                = Inr leases
            \<and> (leasesRequired a \<or> leases \<noteq> [])
          \<longrightarrow> GenerateMachineSets fuel d a cd pool w = Some (([], False, None), pool', w'))"
proof -
  from outcome_claim_call [OF ol cc] ok
  obtain c md where md: "cd_Spec_ClusterMetadata cd = Some md"
    and l: "l = newLease pool cd (InfraID md @ ''-'' @ [c])"
    and r: "r = Inr ([c], False)"
    by auto
  have first: "\<exists>c md. r = Inr ([c], False) \<and> cd_Spec_ClusterMetadata cd = Some md
             \<and> lease_Name l = InfraID md @ ''-'' @ [c]"
    using md l r newLease_name by blast
  have second: "GenerateMachineSets fuel d a cd pool w = Some (([], False, None), pool', w')"
    if "cd_Spec_Platform_GCP cd \<noteq> None" "pool_Spec_Platform_GCP pool \<noteq> None"
       "getClusterVersion d cd = Inr clusterVersion"
       "client_List a (pool_Namespace pool) [(ClusterDeploymentNameLabel, cd_Name cd)] = Inr leases"
       "leasesRequired a \<or> leases \<noteq> []"
  proof -
    from that(1) obtain cdgcp where g1: "cd_Spec_Platform_GCP cd = Some cdgcp" by auto
    from that(2) obtain poolgcp where g2: "pool_Spec_Platform_GCP pool = Some poolgcp" by auto
    show ?thesis
    proof (cases "leasesRequired a")
      case True
      with md g1 g2 that(3) that(4) ol r show ?thesis
        by (simp add: GenerateMachineSets_def)
    next
      case False
      with that(5) have "0 < length leases" by simp
      with False md g1 g2 that(3) that(4) ol r show ?thesis
        by (simp add: GenerateMachineSets_def)
    qed
  qed
  show ?thesis using first second by blast
qed

lemma outcome_claim_char:
  assumes "outcome_claim a pool cd leases w r w'"
  shows "\<exists>c. (if pool_Spec_Name pool = ''worker'' then c = CHR ''w''
              else c \<in> set validLeaseChars)
           \<and> (r = Inr ([c], False) \<or> (\<exists>e. r = Inl e))"
proof -
  from assms obtain c md where
        "cd_Spec_ClusterMetadata cd = Some md" "scanLeases pool cd leases = None"
    and ch: "if pool_Spec_Name pool = ''worker'' then c = CHR ''w'' else c \<in> set validLeaseChars"
    and "createCalls w' = createCalls w @ [newLease pool cd (InfraID md @ ''-'' @ [c])]"
    and rs: "case client_Create a (newLease pool cd (InfraID md @ ''-'' @ [c])) of
              None \<Rightarrow> r = Inr ([c], False)
                     \<and> expectations w' = (expectations w)(expectKey pool \<mapsto> 1)
                     \<and> expectationCalls w' = expectationCalls w @ [ExpectCreations_call (expectKey pool) 1]
            | Some err \<Rightarrow> r = Inl err
                     \<and> expectations w' = (expectations w)(expectKey pool := None)
                     \<and> expectationCalls w' = expectationCalls w
                           @ [ExpectCreations_call (expectKey pool) 1, DeleteExpectations_call (expectKey pool)]"
    unfolding outcome_claim_def by blast
  from rs have "r = Inr ([c], False) \<or> (\<exists>e. r = Inl e)"
    by (cases "client_Create a (newLease pool cd (InfraID md @ ''-'' @ [c]))") simp_all
  with ch show ?thesis by blast
qed

text \<open>
  C3, as amended. Let \<open>obtainLease\<close> return a non-empty character with no error. When no
  visible lease is labelled with the pool's name, that character is \<open>w\<close> for a pool whose
  logical name is \<open>worker\<close>, and for every other pool it is a member of
  \<open>validLeaseChars\<close>, hence neither \<open>m\<close> nor \<open>w\<close>. When a visible lease is labelled
  with the pool's name, it is the last character of the first such lease, whatever that
  is. The alphabet has 34 characters, all different.
\<close>

theorem obtainLease_new_char_in_alphabet:
  assumes ol: "obtainLease a pool cd leases w = (Inr (leaseChar, proceed), pool', w')"
      and ne: "leaseChar \<noteq> []"
  shows "((\<forall>l \<in> set leases. label (lease_Labels l) MachinePoolNameLabel \<noteq> pool_Name pool)
          \<longrightarrow> (\<exists>c. leaseChar = [c]
                \<and> (pool_Spec_Name pool = ''worker'' \<longrightarrow> c = CHR ''w'')
                \<and> (pool_Spec_Name pool \<noteq> ''worker''
                     \<longrightarrow> c \<in> set validLeaseChars \<and> c \<noteq> CHR ''m'' \<and> c \<noteq> CHR ''w'')))
       \<and> (\<forall>l. find (\<lambda>l. label (lease_Labels l) MachinePoolNameLabel = pool_Name pool) leases
               = Some l
            \<longrightarrow> leaseChar = [last (lease_Name l)] \<and> proceed)
       \<and> length validLeaseChars = 34 \<and> distinct validLeaseChars"
proof -
  have created: "\<exists>c. leaseChar = [c]
                \<and> (pool_Spec_Name pool = ''worker'' \<longrightarrow> c = CHR ''w'')
                \<and> (pool_Spec_Name pool \<noteq> ''worker''
                     \<longrightarrow> c \<in> set validLeaseChars \<and> c \<noteq> CHR ''m'' \<and> c \<noteq> CHR ''w'')"
    if no: "\<forall>l \<in> set leases. label (lease_Labels l) MachinePoolNameLabel \<noteq> pool_Name pool"
  proof -
    from no have sc: "scanLeases pool cd leases = None" by (simp add: scanLeases_None_iff)
    from obtainLease_outcome [OF ol]
    have "outcome_claim a pool cd leases w (Inr (leaseChar, proceed)) w'"
    proof
      assume "outcome_quiet pool cd leases w (Inr (leaseChar, proceed)) w'"
      with sc ne show ?thesis by (simp add: outcome_quiet_def)
    qed
    from outcome_claim_char [OF this] obtain c where
          ch: "if pool_Spec_Name pool = ''worker'' then c = CHR ''w''
               else c \<in> set validLeaseChars"
      and lc: "leaseChar = [c]"
      by auto
    show ?thesis
    proof (cases "pool_Spec_Name pool = ''worker''")
      case True
      with ch lc show ?thesis by simp
    next
      case False
      with ch have "c \<in> set validLeaseChars" by simp
      moreover from this alphabet_excludes have "c \<noteq> CHR ''m''" "c \<noteq> CHR ''w''" by blast+
      ultimately show ?thesis using lc False by simp
    qed
  qed
  have existing: "leaseChar = [last (lease_Name l)] \<and> proceed"
    if fd: "find (\<lambda>l. label (lease_Labels l) MachinePoolNameLabel = pool_Name pool) leases
              = Some l" for l
  proof -
    have lab: "label (lease_Labels l) MachinePoolNameLabel = pool_Name pool"
      using find_labelled [OF fd] .
    obtain r0 where r0: "scanLeases pool cd [l] = Some r0"
      using lab by simp
    with scanLeases_first [OF fd] have "scanLeases pool cd leases = Some r0" by simp
    from obtainLease_existing [OF this, of a w] ol have "r0 = Inr (leaseChar, proceed)" by simp
    with r0 lab show ?thesis
      by (simp add: Let_def split: if_splits option.splits)
  qed
  show ?thesis using created existing alphabet_size by blast
qed

lemma no_leases_available:
  "findAvailableLeaseChars cd [] = Inr validLeaseChars"
  by (simp add: findAvailableLeaseChars_def stringToRuneSet_def validLeaseChars_def)

lemma availableCheck_unset:
  "availableCheck (pool_named n) = ([], False)"
  by (simp add: availableCheck_def SetMachinePoolConditionWithChangeCheck_def fixture_facts)

lemma alphabet_at_7: "validLeaseChars ! (7 mod length validLeaseChars) = CHR ''h''"
  by (simp add: validLeaseChars_def)

lemma expectKey_pool_named: "expectKey (pool_named n) = ''ns/cd-'' @ n"
  by (simp add: expectKey_def NamespacedName_String_def fixture_facts)

lemma obtainLease_infra_unleased:
  assumes "client_Create a (newLease (pool_named ''infra'') cd_abc123 ''abc123-h'') = None"
  shows "obtainLease a (pool_named ''infra'') cd_abc123 [] world0 =
     (Inr (''h'', False), pool_named ''infra'',
      world0\<lparr>drawn := Suc 0,
             expectations := [''ns/cd-infra'' \<mapsto> 1],
             expectationCalls := [ExpectCreations_call ''ns/cd-infra'' 1],
             createCalls := [newLease (pool_named ''infra'') cd_abc123 ''abc123-h'']\<rparr>)"
proof -
  have sc: "scanLeases (pool_named ''infra'') cd_abc123 [] = None" by simp
  have nw: "pool_Spec_Name (pool_named ''infra'') \<noteq> ''worker''" by (simp add: fixture_facts)
  have ne: "validLeaseChars \<noteq> []" by (simp add: validLeaseChars_def)
  have up: "updateIfChanged a (pool_named ''infra'') (availableCheck (pool_named ''infra'')) world0
              = (None, pool_named ''infra'', world0)"
    by (simp add: availableCheck_unset updateIfChanged_def)
  have pick: "validLeaseChars ! (randoms world0 (drawn world0) mod length validLeaseChars) = CHR ''h''"
    using alphabet_at_7 by (simp add: world0_facts)
  have cr: "client_Create a (newLease (pool_named ''infra'') cd_abc123
              (InfraID \<lparr>InfraID = ''abc123''\<rparr> @ ''-'' @ [CHR ''h''])) = None"
    using assms by simp
  have cl: "claimLease a (pool_named ''infra'') cd_abc123 CHR ''h'' (world0\<lparr>drawn := Suc (drawn world0)\<rparr>)
     = (Inr (''h'', False),
        world0\<lparr>drawn := Suc 0,
             expectations := [''ns/cd-infra'' \<mapsto> 1],
             expectationCalls := [ExpectCreations_call ''ns/cd-infra'' 1],
             createCalls := [newLease (pool_named ''infra'') cd_abc123 ''abc123-h'']\<rparr>)"
    using claimLease_created [OF fixture_facts(1) cr, of "world0\<lparr>drawn := Suc (drawn world0)\<rparr>"]
    by (simp add: world0_facts expectKey_pool_named)
  show ?thesis
    using obtainLease_select [OF sc nw no_leases_available ne up] pick cl by simp
qed

theorem obtainLease_create_failure_witness:
  "createCalls (snd (snd (obtainLease create_fails_actuator (pool_named ''worker'') cd_abc123 [] world0)))
     = createCalls world0 @ [newLease (pool_named ''worker'') cd_abc123 ''abc123-w'']
   \<and> client_Create create_fails_actuator (newLease (pool_named ''worker'') cd_abc123 ''abc123-w'')
       = Some (ApiError ''already exists'')
   \<and> fst (obtainLease create_fails_actuator (pool_named ''worker'') cd_abc123 [] world0)
       = Inl (ApiError ''already exists'')
   \<and> expectations
        (snd (snd (obtainLease create_fails_actuator (pool_named ''worker'') cd_abc123 [] world0)))
        (expectKey (pool_named ''worker'')) = None"
proof -
  let ?res = "obtainLease create_fails_actuator (pool_named ''worker'') cd_abc123 [] world0"
  let ?l = "newLease (pool_named ''worker'') cd_abc123 ''abc123-w''"
  have h1: "?res = (fst ?res, fst (snd ?res), snd (snd ?res))" by simp
  have h2: "createCalls (snd (snd ?res)) = createCalls world0 @ [?l]"
    using obtainLease_worker_unleased [OF fixture_facts(1) fixture_facts(4),
            of create_fails_actuator world0]
    by (simp add: fixture_facts)
  have h3: "client_Create create_fails_actuator ?l = Some (ApiError ''already exists'')"
    by (rule fixture_facts)
  from obtainLease_create_failure [OF h1 h2 h3] h2 h3 show ?thesis by simp
qed

theorem obtainLease_created_not_ready_witness:
  "createCalls (snd (snd (obtainLease leasing_actuator (pool_named ''infra'') cd_abc123 [] world0)))
     = createCalls world0 @ [newLease (pool_named ''infra'') cd_abc123 ''abc123-h'']
   \<and> client_Create leasing_actuator (newLease (pool_named ''infra'') cd_abc123 ''abc123-h'') = None
   \<and> fst (obtainLease leasing_actuator (pool_named ''infra'') cd_abc123 [] world0)
       = Inr (''h'', False)
   \<and> leasesRequired leasing_actuator
   \<and> map_option fst
        (GenerateMachineSets 0 stub_deps leasing_actuator cd_abc123 (pool_named ''infra'') world0)
       = Some ([], False, None)"
proof -
  let ?res = "obtainLease leasing_actuator (pool_named ''infra'') cd_abc123 [] world0"
  let ?l = "newLease (pool_named ''infra'') cd_abc123 ''abc123-h''"
  have h3: "client_Create leasing_actuator ?l = None" by (rule fixture_facts)
  note ev = obtainLease_infra_unleased [OF h3]
  have h1: "?res = (fst ?res, fst (snd ?res), snd (snd ?res))" by simp
  have h2: "createCalls (snd (snd ?res)) = createCalls world0 @ [?l]"
    using ev by (simp add: world0_facts)
  have g1: "cd_Spec_Platform_GCP cd_abc123 \<noteq> None" by (simp add: fixture_facts)
  have g2: "pool_Spec_Platform_GCP (pool_named ''infra'') \<noteq> None" by (simp add: pool_named_def)
  have g3: "getClusterVersion stub_deps cd_abc123 = Inr ''4.5.0''" by (simp add: stub_deps_def)
  have g4: "client_List leasing_actuator (pool_Namespace (pool_named ''infra''))
              [(ClusterDeploymentNameLabel, cd_Name cd_abc123)] = Inr []"
    by (simp add: leasing_actuator_def stub_actuator_def)
  have g5: "leasesRequired leasing_actuator" by (simp add: leasing_actuator_def)
  from obtainLease_created_not_ready [OF h1 h2 h3, of stub_deps "''4.5.0''" 0]
       g1 g2 g3 g4 g5 h2 h3 ev
  show ?thesis by simp
qed

theorem obtainLease_new_char_in_alphabet_witness:
  "obtainLease stub_actuator (pool_named ''infra'') cd_abc123 [] world0
     = (Inr (''h'', False), pool_named ''infra'',
        world0\<lparr>drawn := Suc 0,
             expectations := [''ns/cd-infra'' \<mapsto> 1],
             expectationCalls := [ExpectCreations_call ''ns/cd-infra'' 1],
             createCalls := [newLease (pool_named ''infra'') cd_abc123 ''abc123-h'']\<rparr>)
   \<and> ''h'' \<noteq> []
   \<and> CHR ''h'' \<in> set validLeaseChars \<and> pool_Spec_Name (pool_named ''infra'') \<noteq> ''worker''
   \<and> length validLeaseChars = 34"
proof -
  have h1: "obtainLease stub_actuator (pool_named ''infra'') cd_abc123 [] world0
     = (Inr (''h'', False), pool_named ''infra'',
        world0\<lparr>drawn := Suc 0,
             expectations := [''ns/cd-infra'' \<mapsto> 1],
             expectationCalls := [ExpectCreations_call ''ns/cd-infra'' 1],
             createCalls := [newLease (pool_named ''infra'') cd_abc123 ''abc123-h'']\<rparr>)"
    by (rule obtainLease_infra_unleased) (rule fixture_facts)
  have h2: "''h'' \<noteq> []" by simp
  have h3: "\<forall>l \<in> set []. label (lease_Labels l) MachinePoolNameLabel \<noteq> pool_Name (pool_named ''infra'')"
    by simp
  have nw: "pool_Spec_Name (pool_named ''infra'') \<noteq> ''worker''" by (simp add: fixture_facts)
  from obtainLease_new_char_in_alphabet [OF h1 h2] h3 nw h1 show ?thesis by simp
qed

text \<open>A visible lease \<open>abc123-m\<close> labelled with the pool's name: its character comes back
  as it is.\<close>

theorem existing_lease_char_counterexample:
  "obtainLease stub_actuator (pool_named ''infra'') cd_abc123
     [lease_of ''abc123-m'' ''cd-infra''] world0
     = (Inr (''m'', True), pool_named ''infra'', world0)
   \<and> CHR ''m'' \<notin> set validLeaseChars
   \<and> pool_Spec_Name (pool_named ''infra'') \<noteq> ''worker''"
proof -
  have "scanLeases (pool_named ''infra'') cd_abc123 [lease_of ''abc123-m'' ''cd-infra'']
          = Some (Inr (''m'', True))"
    by (simp add: label_lease_of fixture_facts)
  from obtainLease_existing [OF this, of stub_actuator world0] alphabet_excludes(1)
  show ?thesis by (simp add: fixture_facts)
qed

subsection \<open>Exhaustion of the alphabet\<close>

lemma Find_type:
  "FindMachinePoolCondition cs t = Some c \<Longrightarrow> cond_Type c = t"
  by (induction cs) (auto split: if_splits)

lemma Find_append_new:
  "FindMachinePoolCondition cs (cond_Type n) = None \<Longrightarrow>
   FindMachinePoolCondition (cs @ [n]) (cond_Type n) = Some n"
  by (induction cs) (auto split: if_splits)

lemma Find_replace:
  "FindMachinePoolCondition cs (cond_Type n) = Some c \<Longrightarrow>
   FindMachinePoolCondition (replaceCondition cs n) (cond_Type n) = Some n"
  by (induction cs) (auto split: if_splits)

lemma exhausted_fields:
  "cond_Type exhausted = NoMachinePoolNameLeasesAvailable"
  "cond_Status exhausted = ConditionTrue"
  "cond_Reason exhausted = ''OutOfMachinePoolNames''"
  "cond_Message exhausted = ''All machine pool names are in use''"
  by (simp_all add: exhausted_def)

lemma exhaustedCheck_unchanged:
  assumes "FindMachinePoolCondition (pool_Status_Conditions pool) NoMachinePoolNameLeasesAvailable
             = Some exhausted"
  shows "exhaustedCheck pool = (pool_Status_Conditions pool, False)"
  using assms
  by (simp add: exhaustedCheck_def SetMachinePoolConditionWithChangeCheck_def exhausted_fields
        UpdateConditionIfReasonOrMessageChange_def)

lemma exhaustedCheck_changed:
  assumes "FindMachinePoolCondition (pool_Status_Conditions pool) NoMachinePoolNameLeasesAvailable
             \<noteq> Some exhausted"
  shows "\<exists>conds. exhaustedCheck pool = (conds, True)
           \<and> FindMachinePoolCondition conds NoMachinePoolNameLeasesAvailable = Some exhausted"
proof (cases "FindMachinePoolCondition (pool_Status_Conditions pool) NoMachinePoolNameLeasesAvailable")
  case None
  then have "exhaustedCheck pool = (pool_Status_Conditions pool @ [exhausted], True)"
    by (simp add: exhaustedCheck_def SetMachinePoolConditionWithChangeCheck_def exhausted_def)
  moreover have "FindMachinePoolCondition (pool_Status_Conditions pool @ [exhausted])
                   NoMachinePoolNameLeasesAvailable = Some exhausted"
    using Find_append_new [of "pool_Status_Conditions pool" exhausted] None
    by (simp add: exhausted_fields)
  ultimately show ?thesis by simp
next
  case (Some c)
  from Find_type [OF Some] have t: "cond_Type c = NoMachinePoolNameLeasesAvailable" .
  from Some assms have "c \<noteq> exhausted" by simp
  with t have diff: "cond_Status c \<noteq> ConditionTrue
      \<or> UpdateConditionIfReasonOrMessageChange (cond_Reason c) (cond_Message c)
           ''OutOfMachinePoolNames'' ''All machine pool names are in use''"
    by (cases c) (auto simp: exhausted_def UpdateConditionIfReasonOrMessageChange_def)
  then have "exhaustedCheck pool = (replaceCondition (pool_Status_Conditions pool) exhausted, True)"
    using Some
    by (auto simp: exhaustedCheck_def SetMachinePoolConditionWithChangeCheck_def exhausted_def)
  moreover have "FindMachinePoolCondition (replaceCondition (pool_Status_Conditions pool) exhausted)
                   NoMachinePoolNameLeasesAvailable = Some exhausted"
    using Find_replace [of "pool_Status_Conditions pool" exhausted c] Some
    by (simp add: exhausted_fields)
  ultimately show ?thesis by simp
qed

lemma obtainLease_exhausted_unchanged:
  assumes sc: "scanLeases pool cd leases = None"
      and nw: "pool_Spec_Name pool \<noteq> ''worker''"
      and av: "findAvailableLeaseChars cd leases = Inr []"
      and set: "FindMachinePoolCondition (pool_Status_Conditions pool)
                  NoMachinePoolNameLeasesAvailable = Some exhausted"
  shows "obtainLease a pool cd leases w = (Inr ([], False), pool, w)"
proof -
  have "updateIfChanged a pool (exhaustedCheck pool) w = (None, pool, w)"
    by (simp add: exhaustedCheck_unchanged [OF set] updateIfChanged_def)
  from obtainLease_exhausted [OF sc nw av this] show ?thesis by simp
qed

lemma obtainLease_exhausted_changed:
  assumes sc: "scanLeases pool cd leases = None"
      and nw: "pool_Spec_Name pool \<noteq> ''worker''"
      and av: "findAvailableLeaseChars cd leases = Inr []"
      and ch: "exhaustedCheck pool = (conds, True)"
  shows "obtainLease a pool cd leases w =
           ((case client_Status_Update a (pool\<lparr>pool_Status_Conditions := conds\<rparr>) of
               None \<Rightarrow> Inr ([], False) | Some err \<Rightarrow> Inl err),
            pool\<lparr>pool_Status_Conditions := conds\<rparr>,
            w\<lparr>statusUpdateCalls := statusUpdateCalls w @ [pool\<lparr>pool_Status_Conditions := conds\<rparr>]\<rparr>)"
proof -
  have "updateIfChanged a pool (exhaustedCheck pool) w
          = (client_Status_Update a (pool\<lparr>pool_Status_Conditions := conds\<rparr>),
             pool\<lparr>pool_Status_Conditions := conds\<rparr>,
             w\<lparr>statusUpdateCalls := statusUpdateCalls w @ [pool\<lparr>pool_Status_Conditions := conds\<rparr>]\<rparr>)"
    by (simp add: ch updateIfChanged_def Let_def)
  from obtainLease_exhausted [OF sc nw av this] show ?thesis
    by (simp split: option.splits)
qed

text \<open>
  C5, as amended. For a pool that is not \<open>worker\<close> and has no lease, when no character
  of the alphabet is available: if the pool's exhaustion condition already has the value,
  reason and message that \<open>obtainLease\<close> sets, nothing is written and the result is the
  empty character, proceed false, no error; otherwise the condition is set and written
  once, and the result is the same unless the store rejects the write, in which case it
  is the store's error. A call that returned without error, repeated on the pool and state
  it left, writes nothing and returns the same.
\<close>

theorem obtainLease_exhausted_alphabet:
  assumes no: "\<forall>l \<in> set leases. label (lease_Labels l) MachinePoolNameLabel \<noteq> pool_Name pool"
      and nw: "pool_Spec_Name pool \<noteq> ''worker''"
      and av: "findAvailableLeaseChars cd leases = Inr []"
  shows "(FindMachinePoolCondition (pool_Status_Conditions pool) NoMachinePoolNameLeasesAvailable
            = Some exhausted
          \<longrightarrow> obtainLease a pool cd leases w = (Inr ([], False), pool, w))
       \<and> (FindMachinePoolCondition (pool_Status_Conditions pool) NoMachinePoolNameLeasesAvailable
            \<noteq> Some exhausted
          \<longrightarrow> (\<exists>conds.
                 FindMachinePoolCondition conds NoMachinePoolNameLeasesAvailable = Some exhausted
                 \<and> obtainLease a pool cd leases w =
                     ((case client_Status_Update a (pool\<lparr>pool_Status_Conditions := conds\<rparr>) of
                         None \<Rightarrow> Inr ([], False) | Some err \<Rightarrow> Inl err),
                      pool\<lparr>pool_Status_Conditions := conds\<rparr>,
                      w\<lparr>statusUpdateCalls :=
                          statusUpdateCalls w @ [pool\<lparr>pool_Status_Conditions := conds\<rparr>]\<rparr>)))
       \<and> (\<forall>pool' w'. obtainLease a pool cd leases w = (Inr ([], False), pool', w')
            \<longrightarrow> obtainLease a pool' cd leases w' = (Inr ([], False), pool', w'))"
proof -
  from no have sc: "scanLeases pool cd leases = None" by (simp add: scanLeases_None_iff)
  have first: "obtainLease a pool cd leases w = (Inr ([], False), pool, w)"
    if "FindMachinePoolCondition (pool_Status_Conditions pool) NoMachinePoolNameLeasesAvailable
            = Some exhausted"
    using obtainLease_exhausted_unchanged [OF sc nw av that] .
  have second: "\<exists>conds.
                 FindMachinePoolCondition conds NoMachinePoolNameLeasesAvailable = Some exhausted
                 \<and> obtainLease a pool cd leases w =
                     ((case client_Status_Update a (pool\<lparr>pool_Status_Conditions := conds\<rparr>) of
                         None \<Rightarrow> Inr ([], False) | Some err \<Rightarrow> Inl err),
                      pool\<lparr>pool_Status_Conditions := conds\<rparr>,
                      w\<lparr>statusUpdateCalls :=
                          statusUpdateCalls w @ [pool\<lparr>pool_Status_Conditions := conds\<rparr>]\<rparr>)"
    if "FindMachinePoolCondition (pool_Status_Conditions pool) NoMachinePoolNameLeasesAvailable
            \<noteq> Some exhausted"
  proof -
    from exhaustedCheck_changed [OF that] obtain conds where
      c: "exhaustedCheck pool = (conds, True)"
      and f: "FindMachinePoolCondition conds NoMachinePoolNameLeasesAvailable = Some exhausted"
      by blast
    from obtainLease_exhausted_changed [OF sc nw av c, of a w] f show ?thesis by blast
  qed
  have third: "obtainLease a pool' cd leases w' = (Inr ([], False), pool', w')"
    if r: "obtainLease a pool cd leases w = (Inr ([], False), pool', w')" for pool' w'
  proof (cases "FindMachinePoolCondition (pool_Status_Conditions pool)
                  NoMachinePoolNameLeasesAvailable = Some exhausted")
    case True
    from first [OF True] r have "pool' = pool" "w' = w" by simp_all
    with first [OF True] show ?thesis by simp
  next
    case False
    from second [OF False] r obtain conds where
      f: "FindMachinePoolCondition conds NoMachinePoolNameLeasesAvailable = Some exhausted"
      and p: "pool' = pool\<lparr>pool_Status_Conditions := conds\<rparr>"
      by auto
    have sc': "scanLeases pool' cd leases = None"
      using no p by (simp add: scanLeases_None_iff)
    have nw': "pool_Spec_Name pool' \<noteq> ''worker''" using nw p by simp
    have f': "FindMachinePoolCondition (pool_Status_Conditions pool')
                NoMachinePoolNameLeasesAvailable = Some exhausted"
      using f p by simp
    from obtainLease_exhausted_unchanged [OF sc' nw' av f'] show ?thesis .
  qed
  show ?thesis using first second third by blast
qed

lemma all_claimed_unlabelled:
  "\<forall>l \<in> set all_claimed. label (lease_Labels l) MachinePoolNameLabel \<noteq> pool_Name (pool_named ''infra'')"
  by (simp add: all_claimed_def label_lease_of fixture_facts)

lemma all_claimed_exhausts: "findAvailableLeaseChars cd_abc123 all_claimed = Inr []"
  by (simp add: findAvailableLeaseChars_def stringToRuneSet_def all_claimed_def validLeaseChars_def
        label_lease_of fixture_facts)

lemma infra_not_exhausted:
  "FindMachinePoolCondition (pool_Status_Conditions (pool_named ''infra''))
     NoMachinePoolNameLeasesAvailable \<noteq> Some exhausted"
  by (simp add: fixture_facts)

lemma exhaustedCheck_infra: "exhaustedCheck (pool_named ''infra'') = ([exhausted], True)"
  by (simp add: exhaustedCheck_def SetMachinePoolConditionWithChangeCheck_def exhausted_def
        fixture_facts)

theorem obtainLease_exhausted_alphabet_witness:
  "findAvailableLeaseChars cd_abc123 all_claimed = Inr []
   \<and> pool_Spec_Name (pool_named ''infra'') \<noteq> ''worker''
   \<and> obtainLease stub_actuator (pool_named ''infra'') cd_abc123 all_claimed world0
       = (Inr ([], False), (pool_named ''infra'')\<lparr>pool_Status_Conditions := [exhausted]\<rparr>,
          world0\<lparr>statusUpdateCalls := [(pool_named ''infra'')\<lparr>pool_Status_Conditions := [exhausted]\<rparr>]\<rparr>)
   \<and> obtainLease stub_actuator ((pool_named ''infra'')\<lparr>pool_Status_Conditions := [exhausted]\<rparr>)
        cd_abc123 all_claimed
        (world0\<lparr>statusUpdateCalls := [(pool_named ''infra'')\<lparr>pool_Status_Conditions := [exhausted]\<rparr>]\<rparr>)
       = (Inr ([], False), (pool_named ''infra'')\<lparr>pool_Status_Conditions := [exhausted]\<rparr>,
          world0\<lparr>statusUpdateCalls := [(pool_named ''infra'')\<lparr>pool_Status_Conditions := [exhausted]\<rparr>]\<rparr>)"
proof -
  let ?p = "(pool_named ''infra'')\<lparr>pool_Status_Conditions := [exhausted]\<rparr>"
  let ?w = "world0\<lparr>statusUpdateCalls := [?p]\<rparr>"
  have nw: "pool_Spec_Name (pool_named ''infra'') \<noteq> ''worker''" by (simp add: fixture_facts)
  have sc: "scanLeases (pool_named ''infra'') cd_abc123 all_claimed = None"
    using all_claimed_unlabelled by (simp add: scanLeases_None_iff)
  have up: "client_Status_Update stub_actuator ?p = None" by (simp add: stub_actuator_def)
  have r1: "obtainLease stub_actuator (pool_named ''infra'') cd_abc123 all_claimed world0
              = (Inr ([], False), ?p, ?w)"
    using obtainLease_exhausted_changed [OF sc nw all_claimed_exhausts exhaustedCheck_infra,
            of stub_actuator world0] up
    by (simp add: world0_facts)
  note inst = obtainLease_exhausted_alphabet [OF all_claimed_unlabelled nw all_claimed_exhausts,
               of stub_actuator world0]
  from inst r1 have r2: "obtainLease stub_actuator ?p cd_abc123 all_claimed ?w
                          = (Inr ([], False), ?p, ?w)"
    by blast
  show ?thesis using all_claimed_exhausts nw r1 r2 by simp
qed

text \<open>The alphabet is exhausted, the condition is not yet set and the store rejects the
  status write: the result is the store's error.\<close>

theorem status_write_fails_counterexample:
  "obtainLease status_fails_actuator (pool_named ''infra'') cd_abc123 all_claimed world0
     = (Inl (ApiError ''conflict''),
        (pool_named ''infra'')\<lparr>pool_Status_Conditions := [exhausted]\<rparr>,
        world0\<lparr>statusUpdateCalls := [(pool_named ''infra'')\<lparr>pool_Status_Conditions := [exhausted]\<rparr>]\<rparr>)
   \<and> fst (obtainLease status_fails_actuator (pool_named ''infra'') cd_abc123 all_claimed world0)
       \<noteq> Inr ([], False)"
proof -
  let ?p = "(pool_named ''infra'')\<lparr>pool_Status_Conditions := [exhausted]\<rparr>"
  have nw: "pool_Spec_Name (pool_named ''infra'') \<noteq> ''worker''" by (simp add: fixture_facts)
  have sc: "scanLeases (pool_named ''infra'') cd_abc123 all_claimed = None"
    using all_claimed_unlabelled by (simp add: scanLeases_None_iff)
  have up: "client_Status_Update status_fails_actuator ?p = Some (ApiError ''conflict'')"
    by (simp add: status_fails_actuator_def)
  show ?thesis
    using obtainLease_exhausted_changed [OF sc nw all_claimed_exhausts exhaustedCheck_infra,
            of status_fails_actuator world0] up
    by (simp add: world0_facts)
qed

subsection \<open>The choice of the pool name\<close>

lemma finishMachineSets_named:
  assumes "finishMachineSets d md ic clusterVersion imageID computePool = (ms, True, None)"
  shows "\<exists>userData. installgcp_MachineSets d (InfraID md) ic computePool imageID
                        (workerRole d) userData = (ms, None)"
  using assms
  by (auto simp: finishMachineSets_def errors_Wrap_def split: sum.splits prod.splits option.splits)

lemma buildMachineSets_named:
  assumes "buildMachineSets fuel d a cd md cdgcp pool poolgcp poolName clusterVersion
             = Some (ms, True, None)"
  shows "\<exists>ic computePool imageID userData.
           imp_Name computePool = poolName
           \<and> installgcp_MachineSets d (InfraID md) ic computePool imageID
                (workerRole d) userData = (ms, None)"
proof -
  let ?ic = "\<lparr>ic_Region = Region cdgcp, ic_ProjectID = projectID a\<rparr>"
  let ?cp = "\<lambda>zones. (baseMachinePool d pool)
            \<lparr>imp_Name := poolName,
             imp_Platform_GCP := Some
               \<lparr>igcp_Zones = zones,
                igcp_InstanceType = gcp_InstanceType poolgcp,
                igcp_OSDisk = \<lparr>DiskType = ''pd-ssd'', DiskSizeGB = 128\<rparr>\<rparr>\<rparr>"
  from assms have "\<exists>imageID zones.
      finishMachineSets d md ?ic clusterVersion imageID (?cp zones) = (ms, True, None)"
    by (auto simp: buildMachineSets_def Let_def
             split: sum.splits if_splits option.splits prod.splits)
  then obtain imageID zones where
    f: "finishMachineSets d md ?ic clusterVersion imageID (?cp zones) = (ms, True, None)"
    by blast
  have n: "imp_Name (?cp zones) = poolName" by simp
  from finishMachineSets_named [OF f] n show ?thesis by blast
qed

lemma GenerateMachineSets_leased:
  assumes md: "cd_Spec_ClusterMetadata cd = Some md"
      and g1: "cd_Spec_Platform_GCP cd = Some cdgcp"
      and g2: "pool_Spec_Platform_GCP pool = Some poolgcp"
      and cv: "getClusterVersion d cd = Inr clusterVersion"
      and ls: "client_List a (pool_Namespace pool) [(ClusterDeploymentNameLabel, cd_Name cd)]
                 = Inr leases"
      and use: "leases \<noteq> [] \<or> leasesRequired a"
  shows "GenerateMachineSets fuel d a cd pool w =
           (case obtainLease a pool cd leases w of
              (Inl err, pool1, w1) \<Rightarrow> Some (([], False, Some err), pool1, w1)
            | (Inr (leaseChar, proceed), pool1, w1) \<Rightarrow>
                if proceed
                then map_option (\<lambda>g. (g, pool1, w1))
                       (buildMachineSets fuel d a cd md cdgcp pool1 poolgcp leaseChar clusterVersion)
                else Some (([], False, None), pool1, w1))"
proof (cases "leasesRequired a")
  case True
  with md g1 g2 cv ls show ?thesis
    by (simp add: GenerateMachineSets_def split: prod.splits sum.splits)
next
  case False
  with use have "0 < length leases" by simp
  with False md g1 g2 cv ls show ?thesis
    by (simp add: GenerateMachineSets_def split: prod.splits sum.splits)
qed

lemma GenerateMachineSets_unleased:
  assumes md: "cd_Spec_ClusterMetadata cd = Some md"
      and g1: "cd_Spec_Platform_GCP cd = Some cdgcp"
      and g2: "pool_Spec_Platform_GCP pool = Some poolgcp"
      and cv: "getClusterVersion d cd = Inr clusterVersion"
      and ls: "client_List a (pool_Namespace pool) [(ClusterDeploymentNameLabel, cd_Name cd)]
                 = Inr leases"
      and no: "leases = []" "\<not> leasesRequired a"
  shows "GenerateMachineSets fuel d a cd pool w =
           map_option (\<lambda>g. (g, pool, w))
             (buildMachineSets fuel d a cd md cdgcp pool poolgcp (pool_Spec_Name pool) clusterVersion)"
  using assms by (simp add: GenerateMachineSets_def)

text \<open>
  C10. Past its validations and the listing of the leases, \<open>GenerateMachineSets\<close> takes
  the lease path whenever the visible lease list is non-empty or leases are required: it
  is then what \<open>obtainLease\<close> decides, and the machine sets are built for the lease
  character. It builds them for the pool's configured logical name exactly when the list
  is empty and leases are not required. Machine sets that come out ready are the
  installer's, for a compute pool of the name given.
\<close>

theorem GenerateMachineSets_lease_path:
  assumes md: "cd_Spec_ClusterMetadata cd = Some md"
      and g1: "cd_Spec_Platform_GCP cd = Some cdgcp"
      and g2: "pool_Spec_Platform_GCP pool = Some poolgcp"
      and cv: "getClusterVersion d cd = Inr clusterVersion"
      and ls: "client_List a (pool_Namespace pool) [(ClusterDeploymentNameLabel, cd_Name cd)]
                 = Inr leases"
  shows "(leases \<noteq> [] \<or> leasesRequired a \<longrightarrow>
            GenerateMachineSets fuel d a cd pool w =
              (case obtainLease a pool cd leases w of
                 (Inl err, pool1, w1) \<Rightarrow> Some (([], False, Some err), pool1, w1)
               | (Inr (leaseChar, proceed), pool1, w1) \<Rightarrow>
                   if proceed
                   then map_option (\<lambda>g. (g, pool1, w1))
                          (buildMachineSets fuel d a cd md cdgcp pool1 poolgcp leaseChar
                             clusterVersion)
                   else Some (([], False, None), pool1, w1)))
       \<and> (leases = [] \<and> \<not> leasesRequired a \<longrightarrow>
            GenerateMachineSets fuel d a cd pool w =
              map_option (\<lambda>g. (g, pool, w))
                (buildMachineSets fuel d a cd md cdgcp pool poolgcp (pool_Spec_Name pool)
                   clusterVersion))
       \<and> (\<forall>p n ms.
             buildMachineSets fuel d a cd md cdgcp p poolgcp n clusterVersion = Some (ms, True, None)
             \<longrightarrow> (\<exists>ic computePool imageID userData.
                    imp_Name computePool = n
                    \<and> installgcp_MachineSets d (InfraID md) ic computePool imageID
                         (workerRole d) userData = (ms, None)))"
  using GenerateMachineSets_leased [OF assms, of fuel w]
        GenerateMachineSets_unleased [OF assms, of fuel w]
        buildMachineSets_named [of fuel d a cd md cdgcp _ poolgcp _ clusterVersion]
  by blast


lemma getZones_two_pages:
  "ListComputeZones a = two_pages \<Longrightarrow>
   getZones 2 a ''us-east1'' = Some ([''us-east1-b'', ''us-east1-c'', ''us-east1-d''], None)"
  by (simp add: getZones_def numeral_2_eq_2 two_pages_first two_pages_second)

lemma getImageID_one_image:
  "ListComputeImages a = one_image \<Longrightarrow> getImageID a cd_abc123 = Inr ''abc123-rhcos-image''"
  by (simp add: getImageID_def fixture_facts one_image_abc123)

lemma buildMachineSets_stub:
  assumes "ListComputeImages a = one_image" "ListComputeZones a = two_pages"
  shows "buildMachineSets 2 stub_deps a cd_abc123 \<lparr>InfraID = ''abc123''\<rparr> \<lparr>Region = ''us-east1''\<rparr>
           (pool_named n) \<lparr>gcp_Zones = [], gcp_InstanceType = ''n1-standard-4''\<rparr> name ''4.5.0''
         = Some ([\<lparr>ms_Name = ''abc123-'' @ name @ ''-a''\<rparr>], True, None)"
  using getZones_two_pages [OF assms(2)] getImageID_one_image [OF assms(1)]
  by (simp add: buildMachineSets_def finishMachineSets_def stub_deps_def errors_Wrap_def)

theorem GenerateMachineSets_lease_path_witness:
  "cd_Spec_ClusterMetadata cd_abc123 = Some \<lparr>InfraID = ''abc123''\<rparr>
   \<and> cd_Spec_Platform_GCP cd_abc123 = Some \<lparr>Region = ''us-east1''\<rparr>
   \<and> pool_Spec_Platform_GCP (pool_named ''infra'')
        = Some \<lparr>gcp_Zones = [], gcp_InstanceType = ''n1-standard-4''\<rparr>
   \<and> getClusterVersion stub_deps cd_abc123 = Inr ''4.5.0''
   \<and> client_List listing_actuator (pool_Namespace (pool_named ''infra''))
         [(ClusterDeploymentNameLabel, cd_Name cd_abc123)] = Inr [lease_of ''abc123-q'' ''cd-infra'']
   \<and> \<not> leasesRequired listing_actuator
   \<and> GenerateMachineSets 2 stub_deps listing_actuator cd_abc123 (pool_named ''infra'') world0
        = Some (([\<lparr>ms_Name = ''abc123-q-a''\<rparr>], True, None), pool_named ''infra'', world0)
   \<and> client_List stub_actuator (pool_Namespace (pool_named ''infra''))
         [(ClusterDeploymentNameLabel, cd_Name cd_abc123)] = Inr []
   \<and> \<not> leasesRequired stub_actuator
   \<and> GenerateMachineSets 2 stub_deps stub_actuator cd_abc123 (pool_named ''infra'') world0
        = Some (([\<lparr>ms_Name = ''abc123-infra-a''\<rparr>], True, None), pool_named ''infra'', world0)"
proof -
  have md: "cd_Spec_ClusterMetadata cd_abc123 = Some \<lparr>InfraID = ''abc123''\<rparr>"
    by (rule fixture_facts)
  have g1: "cd_Spec_Platform_GCP cd_abc123 = Some \<lparr>Region = ''us-east1''\<rparr>"
    by (rule fixture_facts)
  have g2: "pool_Spec_Platform_GCP (pool_named ''infra'')
        = Some \<lparr>gcp_Zones = [], gcp_InstanceType = ''n1-standard-4''\<rparr>"
    by (simp add: pool_named_def)
  have cv: "getClusterVersion stub_deps cd_abc123 = Inr ''4.5.0''" by (simp add: stub_deps_def)
  have l1: "client_List listing_actuator (pool_Namespace (pool_named ''infra''))
         [(ClusterDeploymentNameLabel, cd_Name cd_abc123)] = Inr [lease_of ''abc123-q'' ''cd-infra'']"
    by (simp add: listing_actuator_def)
  have l2: "client_List stub_actuator (pool_Namespace (pool_named ''infra''))
         [(ClusterDeploymentNameLabel, cd_Name cd_abc123)] = Inr []"
    by (simp add: stub_actuator_def)
  have n1: "\<not> leasesRequired listing_actuator"
    by (simp add: listing_actuator_def stub_actuator_def)
  have n2: "\<not> leasesRequired stub_actuator" by (simp add: stub_actuator_def)
  have sc: "scanLeases (pool_named ''infra'') cd_abc123 [lease_of ''abc123-q'' ''cd-infra'']
          = Some (Inr (''q'', True))"
    by (simp add: label_lease_of fixture_facts)
  have ol: "obtainLease listing_actuator (pool_named ''infra'') cd_abc123
              [lease_of ''abc123-q'' ''cd-infra''] world0
            = (Inr (''q'', True), pool_named ''infra'', world0)"
    using obtainLease_existing [OF sc] .
  have b1: "buildMachineSets 2 stub_deps listing_actuator cd_abc123 \<lparr>InfraID = ''abc123''\<rparr>
              \<lparr>Region = ''us-east1''\<rparr> (pool_named ''infra'')
              \<lparr>gcp_Zones = [], gcp_InstanceType = ''n1-standard-4''\<rparr> ''q'' ''4.5.0''
            = Some ([\<lparr>ms_Name = ''abc123-q-a''\<rparr>], True, None)"
    using buildMachineSets_stub [of listing_actuator "''infra''" "''q''"]
    by (simp add: listing_actuator_def stub_actuator_def)
  have b2: "buildMachineSets 2 stub_deps stub_actuator cd_abc123 \<lparr>InfraID = ''abc123''\<rparr>
              \<lparr>Region = ''us-east1''\<rparr> (pool_named ''infra'')
              \<lparr>gcp_Zones = [], gcp_InstanceType = ''n1-standard-4''\<rparr>
              (pool_Spec_Name (pool_named ''infra'')) ''4.5.0''
            = Some ([\<lparr>ms_Name = ''abc123-infra-a''\<rparr>], True, None)"
    using buildMachineSets_stub [of stub_actuator "''infra''" "''infra''"]
    by (simp add: stub_actuator_def fixture_facts)
  have r1: "GenerateMachineSets 2 stub_deps listing_actuator cd_abc123 (pool_named ''infra'') world0
        = Some (([\<lparr>ms_Name = ''abc123-q-a''\<rparr>], True, None), pool_named ''infra'', world0)"
    using GenerateMachineSets_lease_path [OF md g1 g2 cv l1, of 2 world0] ol b1 by simp
  have r2: "GenerateMachineSets 2 stub_deps stub_actuator cd_abc123 (pool_named ''infra'') world0
        = Some (([\<lparr>ms_Name = ''abc123-infra-a''\<rparr>], True, None), pool_named ''infra'', world0)"
    using GenerateMachineSets_lease_path [OF md g1 g2 cv l2, of 2 world0] n2 b2 by simp
  show ?thesis using md g1 g2 cv l1 l2 n1 n2 r1 r2 by simp
qed

end
